theory Spec2Isabelle
  imports Main "HOL-Library.Sublist"
begin

section \<open>Strings and values\<close>

text \<open>
  A Python \<open>str\<close> is modelled as a \<open>string\<close> whose characters are the code points
  below 256, so the accented letters of the program's messages are single characters
  (\<open>CHR 0xF1\<close> is the n with tilde). \<open>py_isspace\<close> is \<open>str.isspace\<close> on that range and
  \<open>strip\<close> is \<open>str.strip()\<close> without arguments. Python's \<open>int\<close> is \<open>int\<close>.
\<close>

definition py_isspace :: "char \<Rightarrow> bool" where
  "py_isspace c =
     (let n = (of_char c :: nat)
      in (9 \<le> n \<and> n \<le> 13) \<or> (28 \<le> n \<and> n \<le> 32) \<or> n = 133 \<or> n = 160)"

definition strip :: "string \<Rightarrow> string" where
  "strip s = rev (dropWhile py_isspace (rev (dropWhile py_isspace s)))"

fun str_nat :: "nat \<Rightarrow> string" where
  "str_nat n =
     (if n < 10 then [''0123456789'' ! n]
      else str_nat (n div 10) @ [''0123456789'' ! (n mod 10)])"

definition str_int :: "int \<Rightarrow> string" where
  "str_int i = (if i < 0 then CHR ''-'' # str_nat (nat (- i)) else str_nat (nat i))"

section \<open>models/domain.py\<close>

datatype UserStatus = ACTIVE | INACTIVE

fun UserStatus_value :: "UserStatus \<Rightarrow> string" where
  "UserStatus_value ACTIVE = ''active''"
| "UserStatus_value INACTIVE = ''inactive''"

text \<open>
  The fields of \<open>User\<close> carry the prefix \<open>user_\<close> (\<open>id\<close> is a constant of HOL, and the
  request and response models have fields of the same names). \<open>user_email\<close> holds an
  address as \<open>EmailStr\<close> has returned it: the service's \<open>create_user\<close>, which receives a
  plain \<open>str\<close>, runs the validation (section on \<open>EmailStr\<close> below) before it builds the
  \<open>User\<close>.
\<close>

record User =
  user_id :: "int option"
  user_email :: string
  user_name :: string
  user_status :: UserStatus
  user_age :: int

text \<open>
  The values a dictionary of the program holds, and \<open>str()\<close> on them as an f-string
  applies it.
\<close>

datatype pyval = PyNone | PyInt int | PyStr string | PyStatus UserStatus

fun py_str :: "pyval \<Rightarrow> string" where
  "py_str PyNone = ''None''"
| "py_str (PyInt i) = str_int i"
| "py_str (PyStr s) = s"
| "py_str (PyStatus ACTIVE) = ''UserStatus.ACTIVE''"
| "py_str (PyStatus INACTIVE) = ''UserStatus.INACTIVE''"

type_synonym pydict = "(string \<times> pyval) list"

definition User_dict :: "User \<Rightarrow> pydict" where
  "User_dict u =
     [(''id'', case user_id u of None \<Rightarrow> PyNone | Some i \<Rightarrow> PyInt i),
      (''email'', PyStr (user_email u)),
      (''name'', PyStr (user_name u)),
      (''status'', PyStatus (user_status u)),
      (''age'', PyInt (user_age u))]"

section \<open>models/exception.py\<close>

text \<open>
  An exception is its class and its message (\<open>str(e)\<close> is the message). \<open>Other\<close> stands
  for every class outside the application's hierarchy (\<open>OverflowError\<close>, \<open>ValueError\<close>,
  ...); the five others are \<open>AppBaseException\<close> and its four subclasses.
\<close>

datatype exc_class = AppBase | UserNotFound | DuplicateEmail | InvalidAge | InvalidUserName | Other

record exc =
  cls :: exc_class
  message :: string

definition base_message :: string where
  "base_message = ''Alphas Error: ''"

text \<open>
  \<open>AppBaseException.__init__\<close>, run for an object of class \<open>c\<close>: \<open>if message\<close> is false
  for \<open>None\<close> and for the empty string.
\<close>

definition AppBaseException_init :: "exc_class \<Rightarrow> string option \<Rightarrow> exc" where
  "AppBaseException_init c msg =
     (case msg of
        None \<Rightarrow> \<lparr>cls = c, message = base_message @ ''Ocurri'' @ [CHR 0xF3] @ '' un error en la aplicaci'' @ [CHR 0xF3] @ ''n''\<rparr>
      | Some m \<Rightarrow>
          if m \<noteq> [] then \<lparr>cls = c, message = base_message @ m\<rparr>
          else \<lparr>cls = c, message = base_message @ ''Ocurri'' @ [CHR 0xF3] @ '' un error en la aplicaci'' @ [CHR 0xF3] @ ''n''\<rparr>)"

definition AppBaseException :: "string option \<Rightarrow> exc" where
  "AppBaseException msg = AppBaseException_init AppBase msg"

text \<open>
  The four subclasses: each builds \<open>alpha_message\<close> and hands it to the base
  constructor. The program always passes the message, so the default arguments have
  no part here.
\<close>

definition UserNotFoundException :: "string \<Rightarrow> exc" where
  "UserNotFoundException msg = AppBaseException_init UserNotFound (Some (''Alphas Error: '' @ msg))"

definition DuplicateEmailException :: "string \<Rightarrow> exc" where
  "DuplicateEmailException msg = AppBaseException_init DuplicateEmail (Some (''Alphas Error: '' @ msg))"

definition InvalidAgeException :: "string \<Rightarrow> exc" where
  "InvalidAgeException msg = AppBaseException_init InvalidAge (Some (''Alphas Error: '' @ msg))"

definition InvalidUserNameException :: "string \<Rightarrow> exc" where
  "InvalidUserNameException msg = AppBaseException_init InvalidUserName (Some (''Alphas Error: '' @ msg))"

section \<open>pydantic's \<open>EmailStr\<close>\<close>

text \<open>
  The field \<open>email: EmailStr\<close> makes \<open>User(email=...)\<close> validate the string it is given:
  the construction raises pydantic's \<open>ValidationError\<close> (class \<open>Other\<close>) for a string that
  is no address, and otherwise stores the address in normal form, which can differ from
  the string (the domain in lower case). The validator is code of a library, so the
  functions that run it take it as a parameter of type \<open>validator\<close>: \<open>Inl\<close> of the
  exception, or \<open>Inr\<close> of the address in normal form. A row of the table holds an
  address that the validator has returned, and validating such an address again returns
  it as it is; so where \<open>find_by_id\<close> and \<open>get_user_by_email\<close> build a \<open>User\<close> from a row,
  the address of the row is the address of the \<open>User\<close>, and where a route builds a
  \<open>UserResponse\<close> from a \<open>User\<close>, the address of the \<open>User\<close> is the address of the response.
\<close>

type_synonym validator = "string \<Rightarrow> exc + string"

text \<open>
  \<open>ascii_EmailStr\<close> is a validator to evaluate the theorems with. It accepts a string
  with one \<open>@\<close>, something before it and a domain with a dot after it, and returns it with
  the domain in lower case. On the addresses of this file it gives what \<open>EmailStr\<close>
  gives: \<open>a@b.com\<close> stays, \<open>Q@B.COM\<close> becomes \<open>Q@b.com\<close>, \<open>not-an-email\<close> is rejected (the
  text of the error is shortened). No theorem about every email depends on it.
\<close>

definition ascii_lower :: "char \<Rightarrow> char" where
  "ascii_lower c =
     (case map_of (zip ''ABCDEFGHIJKLMNOPQRSTUVWXYZ'' ''abcdefghijklmnopqrstuvwxyz'') c of
        None \<Rightarrow> c
      | Some l \<Rightarrow> l)"

definition ascii_EmailStr :: validator where
  "ascii_EmailStr s =
     (let local_part = takeWhile (\<lambda>c. c \<noteq> CHR ''@'') s;
          rest = dropWhile (\<lambda>c. c \<noteq> CHR ''@'') s
      in if local_part = [] \<or> rest = [] \<or> CHR ''@'' \<in> set (tl rest) \<or> CHR ''.'' \<notin> set (tl rest)
         then Inl \<lparr>cls = Other, message = ''1 validation error for User''\<rparr>
         else Inr (local_part @ ''@'' @ map ascii_lower (tl rest)))"

text \<open>The class of the exception that a call raised, \<open>None\<close> when it returned.\<close>

definition raised_class :: "exc + 'a \<Rightarrow> exc_class option" where
  "raised_class r = (case r of Inl e \<Rightarrow> Some (cls e) | Inr v \<Rightarrow> None)"

section \<open>core/config.py\<close>

text \<open>
  The settings with their defaults. \<open>Settings_init\<close> takes the value of the environment
  variable \<open>MIN_USER_AGE\<close> when it is set, which replaces the default.
\<close>

record Settings =
  APP_NAME :: string
  APP_VERSION :: string
  DATABASE_URL :: string
  MIN_USER_AGE :: int
  PORT :: int

definition Settings_init :: "int option \<Rightarrow> Settings" where
  "Settings_init env_min_user_age =
     \<lparr>APP_NAME = ''Alphas User Management API'',
      APP_VERSION = ''1.0.0'',
      DATABASE_URL = ''sqlite:///:memory:'',
      MIN_USER_AGE = (case env_min_user_age of None \<Rightarrow> 18 | Some m \<Rightarrow> m),
      PORT = 8000\<rparr>"

section \<open>The storage engine\<close>

text \<open>
  The table \<open>users(id, email, name, status, age)\<close> of the in-memory SQLite engine, as the
  list of its rows in the order of insertion. The engine's calls return \<open>Inl\<close> with an
  exception of class \<open>Other\<close> where the engine raises:
  \<^item> an integer bound to a statement has to fit 64 bits, else the driver raises
    \<open>OverflowError\<close>;
  \<^item> the id of a new row is 1 in an empty table and the largest id in use plus one
    otherwise. Where that largest id is \<open>2^63 - 1\<close> the engine looks for a free id at
    random and gives up with "database or disk is full"; the model takes that outcome
    (the state needs \<open>2^63 - 1\<close> insertions and the text of the message is shortened).
  The columns' length limits are not enforced by SQLite, text is compared byte by byte,
  and the unique constraint on \<open>email\<close> is never reached, since \<open>save\<close> looks the email
  up before it inserts.
\<close>

record row =
  row_id :: int
  row_email :: string
  row_name :: string
  row_status :: string
  row_age :: int

definition sqlite_int :: "int \<Rightarrow> bool" where
  "sqlite_int i = (- (2 ^ 63) \<le> i \<and> i < 2 ^ 63)"

definition OverflowError :: exc where
  "OverflowError = \<lparr>cls = Other, message = ''Python int too large to convert to SQLite INTEGER''\<rparr>"

definition next_rowid :: "row list \<Rightarrow> int" where
  "next_rowid rs = (if rs = [] then 1 else Max (set (map row_id rs)) + 1)"

definition execute_insert :: "row list \<Rightarrow> string \<Rightarrow> string \<Rightarrow> string \<Rightarrow> int \<Rightarrow> exc + (int \<times> row list)" where
  "execute_insert rs email name status age =
     (if \<not> sqlite_int age then Inl OverflowError
      else if \<not> sqlite_int (next_rowid rs)
        then Inl \<lparr>cls = Other, message = ''database or disk is full''\<rparr>
      else Inr (next_rowid rs,
                rs @ [\<lparr>row_id = next_rowid rs, row_email = email, row_name = name,
                        row_status = status, row_age = age\<rparr>]))"

definition select_where_id :: "row list \<Rightarrow> int \<Rightarrow> exc + row option" where
  "select_where_id rs i =
     (if \<not> sqlite_int i then Inl OverflowError else Inr (find (\<lambda>r. row_id r = i) rs))"

definition select_where_email :: "row list \<Rightarrow> string \<Rightarrow> exc + row option" where
  "select_where_email rs e = Inr (find (\<lambda>r. row_email r = e) rs)"

definition count_where_email :: "row list \<Rightarrow> string \<Rightarrow> exc + int" where
  "count_where_email rs e = Inr (int (length (filter (\<lambda>r. row_email r = e) rs)))"

section \<open>repository/sql.py\<close>

text \<open>
  The repository owns the table; \<open>SQLAlchemyUserRepository_init\<close> is the state after
  \<open>__init__\<close>. A method that writes returns the repository with its result, and a
  method that raises returns \<open>Inl\<close> of the exception. The logging calls have no part in
  the results and are left out.
\<close>

record SQLAlchemyUserRepository =
  users :: "row list"

definition SQLAlchemyUserRepository_init :: SQLAlchemyUserRepository where
  "SQLAlchemyUserRepository_init = \<lparr>users = []\<rparr>"

definition SQLAlchemyUserRepository_email_exists :: "SQLAlchemyUserRepository \<Rightarrow> string \<Rightarrow> exc + bool" where
  "SQLAlchemyUserRepository_email_exists repo email =
     (case count_where_email (users repo) email of
        Inr count \<Rightarrow> Inr (count > 0)
      | Inl e \<Rightarrow> Inl (UserNotFoundException (''Error al verificar email: '' @ message e)))"

text \<open>
  \<open>save\<close>: the three checks in the order of the source, then the insert. The first
  handler re-raises the three validation errors; the second turns every other exception
  of the body, also the \<open>UserNotFoundException\<close> that \<open>email_exists\<close> may raise, into a
  \<open>UserNotFoundException\<close>.
\<close>

definition SQLAlchemyUserRepository_save :: "SQLAlchemyUserRepository \<Rightarrow> User \<Rightarrow> (exc + User) \<times> SQLAlchemyUserRepository" where
  "SQLAlchemyUserRepository_save repo user =
     (if user_age user < 18
        then (Inl (InvalidAgeException (''La edad debe ser mayor o igual a 18 a'' @ [CHR 0xF1] @ ''os'')), repo)
      else if user_name user = [] \<or> strip (user_name user) = []
        then (Inl (InvalidUserNameException (''El nombre no puede estar vac'' @ [CHR 0xED] @ ''o o en blanco'')), repo)
      else
        (case SQLAlchemyUserRepository_email_exists repo (user_email user) of
           Inl e \<Rightarrow> (Inl (UserNotFoundException (''Error al guardar usuario: '' @ message e)), repo)
         | Inr True \<Rightarrow> (Inl (DuplicateEmailException ''El email ya existe en la base de datos''), repo)
         | Inr False \<Rightarrow>
             (case execute_insert (users repo) (user_email user) (user_name user)
                     (UserStatus_value (user_status user)) (user_age user) of
                Inl e \<Rightarrow> (Inl (UserNotFoundException (''Error al guardar usuario: '' @ message e)), repo)
              | Inr (new_id, rs) \<Rightarrow> (Inr (user\<lparr>user_id := Some new_id\<rparr>), repo\<lparr>users := rs\<rparr>))))"

text \<open>
  \<open>UserStatus(value)\<close> raises \<open>ValueError\<close> for a string that is no member's value (the
  message quotes the string as \<open>repr\<close> does for a string without quotes or escapes).
\<close>

definition UserStatus_of_value :: "string \<Rightarrow> exc + UserStatus" where
  "UserStatus_of_value s =
     (if s = ''active'' then Inr ACTIVE
      else if s = ''inactive'' then Inr INACTIVE
      else Inl \<lparr>cls = Other, message = [CHR 0x27] @ s @ [CHR 0x27] @ '' is not a valid UserStatus''\<rparr>)"

definition User_of_row :: "row \<Rightarrow> exc + User" where
  "User_of_row user_data =
     (case UserStatus_of_value (row_status user_data) of
        Inl e \<Rightarrow> Inl e
      | Inr st \<Rightarrow> Inr \<lparr>user_id = Some (row_id user_data), user_email = row_email user_data,
                       user_name = row_name user_data, user_status = st,
                       user_age = row_age user_data\<rparr>)"

definition SQLAlchemyUserRepository_find_by_id :: "SQLAlchemyUserRepository \<Rightarrow> int \<Rightarrow> exc + User" where
  "SQLAlchemyUserRepository_find_by_id repo uid =
     (case select_where_id (users repo) uid of
        Inl e \<Rightarrow> Inl (UserNotFoundException (''Error al buscar usuario: '' @ message e))
      | Inr None \<Rightarrow>
          Inl (UserNotFoundException (''Usuario con ID '' @ [CHR 0x27] @ str_int uid @ [CHR 0x27] @ '' no encontrado''))
      | Inr (Some user_data) \<Rightarrow>
          (case User_of_row user_data of
             Inl e \<Rightarrow> Inl (UserNotFoundException (''Error al buscar usuario: '' @ message e))
           | Inr user \<Rightarrow> Inr user))"

text \<open>
  \<open>get_user_by_email\<close> never raises: the \<open>UserNotFoundException\<close> of a missing email is
  caught by the method's own first handler, which returns the dictionary
  \<open>{'error': str(e)}\<close>; \<open>email_not_found\<close> is that exception as the method raises it.
\<close>

definition email_not_found :: "string \<Rightarrow> exc" where
  "email_not_found email =
     UserNotFoundException (''Usuario con email '' @ [CHR 0x27] @ email @ [CHR 0x27] @ '' no existe'')"

definition SQLAlchemyUserRepository_get_user_by_email :: "SQLAlchemyUserRepository \<Rightarrow> string \<Rightarrow> pydict" where
  "SQLAlchemyUserRepository_get_user_by_email repo email =
     (case select_where_email (users repo) email of
        Inl e \<Rightarrow> [(''error'', PyStr (''Error inesperado: '' @ message e))]
      | Inr None \<Rightarrow> [(''error'', PyStr (message (email_not_found email)))]
      | Inr (Some user_data) \<Rightarrow>
          (case User_of_row user_data of
             Inl e \<Rightarrow> [(''error'', PyStr (''Error inesperado: '' @ message e))]
           | Inr user \<Rightarrow> User_dict user))"

text \<open>The states of the repository that the program can reach: only \<open>save\<close> writes.\<close>

inductive reachable :: "SQLAlchemyUserRepository \<Rightarrow> bool" where
  reachable_init: "reachable SQLAlchemyUserRepository_init"
| reachable_save: "reachable repo \<Longrightarrow> reachable (snd (SQLAlchemyUserRepository_save repo user))"

section \<open>services/userService.py\<close>

text \<open>
  The service holds the repository and nothing else, so its methods take the
  repository's state. \<open>except (A, B, C): raise\<close> passes the exception on as it is and
  \<open>except Exception\<close> wraps every other one into an \<open>AppBaseException\<close>.

  \<open>create_user\<close> builds the \<open>User\<close> inside its \<open>try\<close>: the validation of the email by
  \<open>EmailStr\<close> runs first, its \<open>ValidationError\<close> goes to \<open>except Exception\<close>, and the
  \<open>User\<close> that \<open>save\<close> receives holds the address in normal form.
\<close>

definition UserService_create_user :: "validator \<Rightarrow> SQLAlchemyUserRepository \<Rightarrow> string \<Rightarrow> string \<Rightarrow> int \<Rightarrow> UserStatus \<Rightarrow> (exc + User) \<times> SQLAlchemyUserRepository" where
  "UserService_create_user EmailStr repo email name age status =
     (case EmailStr email of
        Inl e \<Rightarrow> (Inl (AppBaseException (Some (''Error al crear usuario: '' @ message e))), repo)
      | Inr validated \<Rightarrow>
          (let new_user = \<lparr>user_id = None, user_email = validated, user_name = name,
                            user_status = status, user_age = age\<rparr>
           in case SQLAlchemyUserRepository_save repo new_user of
                (Inr saved_user, repo') \<Rightarrow> (Inr saved_user, repo')
              | (Inl e, repo') \<Rightarrow>
                  if cls e = InvalidAge \<or> cls e = InvalidUserName \<or> cls e = DuplicateEmail
                    then (Inl e, repo')
                  else (Inl (AppBaseException (Some (''Error al crear usuario: '' @ message e))), repo')))"

definition UserService_get_user_by_id :: "SQLAlchemyUserRepository \<Rightarrow> int \<Rightarrow> exc + User" where
  "UserService_get_user_by_id repo uid =
     (case SQLAlchemyUserRepository_find_by_id repo uid of
        Inr user \<Rightarrow> Inr user
      | Inl e \<Rightarrow>
          if cls e = UserNotFound then Inl e
          else Inl (AppBaseException (Some (''Error al buscar usuario: '' @ message e))))"

definition UserService_get_user_by_email :: "SQLAlchemyUserRepository \<Rightarrow> string \<Rightarrow> exc + pydict" where
  "UserService_get_user_by_email repo email =
     (let user_dict = SQLAlchemyUserRepository_get_user_by_email repo email
      in case map_of user_dict ''error'' of
           Some err \<Rightarrow> Inl (UserNotFoundException (py_str err))
         | None \<Rightarrow> Inr user_dict)"

definition validate_user_age :: "int \<Rightarrow> exc + bool" where
  "validate_user_age age =
     (if age < 18
        then Inl (InvalidAgeException (''La edad debe ser mayor o igual a 18 a'' @ [CHR 0xF1] @ ''os''))
      else Inr True)"

definition validate_user_name :: "string \<Rightarrow> exc + bool" where
  "validate_user_name name =
     (if name = [] \<or> strip name = []
        then Inl (InvalidUserNameException (''El nombre no puede estar vac'' @ [CHR 0xED] @ ''o o solo contener espacios''))
      else Inr True)"


text \<open>
  \<open>update_user_status\<close> sets the status of the \<open>User\<close> object that \<open>find_by_id\<close> has just
  built from the row, and returns it. No statement is sent to the engine, and the object
  is no part of the table, so the repository comes back as it went in.
\<close>

definition UserService_update_user_status :: "SQLAlchemyUserRepository \<Rightarrow> int \<Rightarrow> UserStatus \<Rightarrow> (exc + User) \<times> SQLAlchemyUserRepository" where
  "UserService_update_user_status repo uid new_status =
     (case UserService_get_user_by_id repo uid of
        Inr user \<Rightarrow> (Inr (user\<lparr>user_status := new_status\<rparr>), repo)
      | Inl e \<Rightarrow>
          if cls e = UserNotFound then (Inl e, repo)
          else (Inl (AppBaseException (Some (''Error al actualizar usuario: '' @ message e))), repo))"

section \<open>api/routes.py\<close>

text \<open>
  The request and response models, with a prefix on their fields. The framework has
  validated the body of a request before the route runs, so \<open>req_email\<close> is an address
  that \<open>EmailStr\<close> has returned; the path parameter of \<open>check_email_exists\<close> is a plain
  \<open>str\<close>, which no validator has seen. A route re-raises every exception of the service
  as it is. \<open>UserResponse\<close> wants an integer \<open>id\<close>:
  for a user without id its construction raises pydantic's validation error, of class
  \<open>Other\<close> (its text is shortened here).
\<close>

record UserCreateRequest =
  req_email :: string
  req_name :: string
  req_age :: int
  req_status :: UserStatus

record UserResponse =
  resp_id :: int
  resp_email :: string
  resp_name :: string
  resp_age :: int
  resp_status :: string


definition UserResponse_of :: "User \<Rightarrow> exc + UserResponse" where
  "UserResponse_of user =
     (case user_id user of
        None \<Rightarrow> Inl \<lparr>cls = Other, message = ''1 validation error for UserResponse''\<rparr>
      | Some i \<Rightarrow> Inr \<lparr>resp_id = i, resp_email = user_email user, resp_name = user_name user,
                       resp_age = user_age user,
                       resp_status = UserStatus_value (user_status user)\<rparr>)"

definition create_user :: "validator \<Rightarrow> SQLAlchemyUserRepository \<Rightarrow> UserCreateRequest \<Rightarrow> (exc + UserResponse) \<times> SQLAlchemyUserRepository" where
  "create_user EmailStr repo user_data =
     (case UserService_create_user EmailStr repo (req_email user_data) (req_name user_data)
             (req_age user_data) (req_status user_data) of
        (Inl e, repo') \<Rightarrow> (Inl e, repo')
      | (Inr user, repo') \<Rightarrow> (UserResponse_of user, repo'))"

definition get_user :: "SQLAlchemyUserRepository \<Rightarrow> int \<Rightarrow> exc + UserResponse" where
  "get_user repo uid =
     (case UserService_get_user_by_id repo uid of
        Inl e \<Rightarrow> Inl e
      | Inr user \<Rightarrow> UserResponse_of user)"


section \<open>main.py\<close>

text \<open>
  The five exception handlers, and \<open>exception_handler\<close>, the framework's choice among
  them: the handler registered for the exception's own class, and none for a class
  outside the application's hierarchy.
\<close>

record JSONResponse =
  status_code :: nat
  content :: "(string \<times> string) list"

definition user_not_found_exception_handler :: "exc \<Rightarrow> JSONResponse" where
  "user_not_found_exception_handler e =
     \<lparr>status_code = 404, content = [(''error'', ''Usuario no encontrado''), (''detail'', message e)]\<rparr>"

definition duplicate_email_exception_handler :: "exc \<Rightarrow> JSONResponse" where
  "duplicate_email_exception_handler e =
     \<lparr>status_code = 409, content = [(''error'', ''Email duplicado''), (''detail'', message e)]\<rparr>"

definition invalid_age_exception_handler :: "exc \<Rightarrow> JSONResponse" where
  "invalid_age_exception_handler e =
     \<lparr>status_code = 400,
      content = [(''error'', ''Edad inv'' @ [CHR 0xE1] @ ''lida''), (''detail'', message e)]\<rparr>"

definition invalid_username_exception_handler :: "exc \<Rightarrow> JSONResponse" where
  "invalid_username_exception_handler e =
     \<lparr>status_code = 400,
      content = [(''error'', ''Nombre de usuario inv'' @ [CHR 0xE1] @ ''lido''), (''detail'', message e)]\<rparr>"

definition app_base_exception_handler :: "exc \<Rightarrow> JSONResponse" where
  "app_base_exception_handler e =
     \<lparr>status_code = 500,
      content = [(''error'', ''Error en la aplicaci'' @ [CHR 0xF3] @ ''n''), (''detail'', message e)]\<rparr>"

definition exception_handler :: "exc \<Rightarrow> JSONResponse option" where
  "exception_handler e =
     (case cls e of
        UserNotFound \<Rightarrow> Some (user_not_found_exception_handler e)
      | DuplicateEmail \<Rightarrow> Some (duplicate_email_exception_handler e)
      | InvalidAge \<Rightarrow> Some (invalid_age_exception_handler e)
      | InvalidUserName \<Rightarrow> Some (invalid_username_exception_handler e)
      | AppBase \<Rightarrow> Some (app_base_exception_handler e)
      | Other \<Rightarrow> None)"

section \<open>Facts about the exceptions and the engine\<close>

lemma UserNotFoundException_eq:
  "UserNotFoundException m = \<lparr>cls = UserNotFound, message = ''Alphas Error: Alphas Error: '' @ m\<rparr>"
  by (simp add: UserNotFoundException_def AppBaseException_init_def base_message_def)

lemma DuplicateEmailException_eq:
  "DuplicateEmailException m = \<lparr>cls = DuplicateEmail, message = ''Alphas Error: Alphas Error: '' @ m\<rparr>"
  by (simp add: DuplicateEmailException_def AppBaseException_init_def base_message_def)

lemma InvalidAgeException_eq:
  "InvalidAgeException m = \<lparr>cls = InvalidAge, message = ''Alphas Error: Alphas Error: '' @ m\<rparr>"
  by (simp add: InvalidAgeException_def AppBaseException_init_def base_message_def)

lemma InvalidUserNameException_eq:
  "InvalidUserNameException m = \<lparr>cls = InvalidUserName, message = ''Alphas Error: Alphas Error: '' @ m\<rparr>"
  by (simp add: InvalidUserNameException_def AppBaseException_init_def base_message_def)

lemma AppBaseException_cls: "cls (AppBaseException m) = AppBase"
  by (simp add: AppBaseException_def AppBaseException_init_def split: option.splits)

lemmas exc_eqs = UserNotFoundException_eq DuplicateEmailException_eq InvalidAgeException_eq
  InvalidUserNameException_eq

lemma email_exists_eq:
  "SQLAlchemyUserRepository_email_exists repo email =
     Inr (\<exists>r \<in> set (users repo). row_email r = email)"
proof -
  have "(0 < length (filter (\<lambda>r. row_email r = email) (users repo)))
          = (\<exists>r \<in> set (users repo). row_email r = email)"
    by (simp add: filter_empty_conv)
  then show ?thesis
    by (simp add: SQLAlchemyUserRepository_email_exists_def count_where_email_def)
qed

lemma next_rowid_fresh: "r \<in> set rs \<Longrightarrow> row_id r < next_rowid rs"
proof -
  assume "r \<in> set rs"
  then have "rs \<noteq> []" and "row_id r \<le> Max (set (map row_id rs))"
    by auto
  then show ?thesis
    by (simp add: next_rowid_def)
qed

lemma find_fresh_append:
  "\<forall>r \<in> set rs. \<not> P r \<Longrightarrow> P x \<Longrightarrow> find P (rs @ [x]) = Some x"
  by (induction rs) auto

lemma find_distinct_key:
  "distinct (map f xs) \<Longrightarrow> x \<in> set xs \<Longrightarrow> find (\<lambda>y. f y = f x) xs = Some x"
  by (induction xs) (auto simp add: image_iff)

lemma UserStatus_roundtrip: "UserStatus_of_value (UserStatus_value s) = Inr s"
  by (cases s) (simp_all add: UserStatus_of_value_def)

section \<open>Facts about \<open>save\<close>\<close>

lemma strip_Nil: "strip [] = []"
  by (simp add: strip_def)

lemma save_invalid_age:
  "user_age user < 18 \<Longrightarrow>
   SQLAlchemyUserRepository_save repo user =
     (Inl (InvalidAgeException (''La edad debe ser mayor o igual a 18 a'' @ [CHR 0xF1] @ ''os'')), repo)"
  by (simp add: SQLAlchemyUserRepository_save_def)

lemma save_invalid_name:
  "\<not> user_age user < 18 \<Longrightarrow> strip (user_name user) = [] \<Longrightarrow>
   SQLAlchemyUserRepository_save repo user =
     (Inl (InvalidUserNameException (''El nombre no puede estar vac'' @ [CHR 0xED] @ ''o o en blanco'')), repo)"
  by (simp add: SQLAlchemyUserRepository_save_def)

lemma save_duplicate:
  "\<not> user_age user < 18 \<Longrightarrow> strip (user_name user) \<noteq> [] \<Longrightarrow>
   \<exists>r \<in> set (users repo). row_email r = user_email user \<Longrightarrow>
   SQLAlchemyUserRepository_save repo user =
     (Inl (DuplicateEmailException ''El email ya existe en la base de datos''), repo)"
  using strip_Nil by (auto simp add: SQLAlchemyUserRepository_save_def email_exists_eq)

lemma save_insert:
  "\<not> user_age user < 18 \<Longrightarrow> strip (user_name user) \<noteq> [] \<Longrightarrow>
   \<not> (\<exists>r \<in> set (users repo). row_email r = user_email user) \<Longrightarrow>
   SQLAlchemyUserRepository_save repo user =
     (case execute_insert (users repo) (user_email user) (user_name user)
             (UserStatus_value (user_status user)) (user_age user) of
        Inl e \<Rightarrow> (Inl (UserNotFoundException (''Error al guardar usuario: '' @ message e)), repo)
      | Inr (new_id, rs) \<Rightarrow> (Inr (user\<lparr>user_id := Some new_id\<rparr>), repo\<lparr>users := rs\<rparr>))"
  using strip_Nil by (auto simp add: SQLAlchemyUserRepository_save_def email_exists_eq)

lemma save_cases:
  obtains (age) "user_age user < 18"
    | (name) "\<not> user_age user < 18" "strip (user_name user) = []"
    | (dup) "\<not> user_age user < 18" "strip (user_name user) \<noteq> []"
        "\<exists>r \<in> set (users repo). row_email r = user_email user"
    | (ins) "\<not> user_age user < 18" "strip (user_name user) \<noteq> []"
        "\<not> (\<exists>r \<in> set (users repo). row_email r = user_email user)"
  by blast

lemma save_error_unchanged:
  "SQLAlchemyUserRepository_save repo user = (Inl e, repo') \<Longrightarrow> repo' = repo"
  by (cases rule: save_cases [where user = user and repo = repo])
     (auto simp add: save_invalid_age save_invalid_name save_duplicate save_insert
           split: sum.splits prod.splits)

lemma save_error_cls:
  "SQLAlchemyUserRepository_save repo user = (Inl e, repo') \<Longrightarrow>
   (cls e = InvalidAge \<longleftrightarrow> user_age user < 18) \<and>
   (cls e = InvalidUserName \<longleftrightarrow> \<not> user_age user < 18 \<and> strip (user_name user) = []) \<and>
   (cls e = DuplicateEmail \<longleftrightarrow> \<not> user_age user < 18 \<and> strip (user_name user) \<noteq> [] \<and>
      (\<exists>r \<in> set (users repo). row_email r = user_email user)) \<and>
   cls e \<noteq> AppBase \<and> cls e \<noteq> Other \<and>
   prefix ''Alphas Error: Alphas Error: '' (message e)"
  by (cases rule: save_cases [where user = user and repo = repo])
     (auto simp add: save_invalid_age save_invalid_name save_duplicate save_insert exc_eqs
           split: sum.splits prod.splits)

lemma save_success:
  "SQLAlchemyUserRepository_save repo user = (Inr saved, repo') \<Longrightarrow>
   \<not> user_age user < 18 \<and> strip (user_name user) \<noteq> [] \<and>
   \<not> (\<exists>r \<in> set (users repo). row_email r = user_email user) \<and>
   sqlite_int (next_rowid (users repo)) \<and>
   saved = user\<lparr>user_id := Some (next_rowid (users repo))\<rparr> \<and>
   users repo' = users repo @
     [\<lparr>row_id = next_rowid (users repo), row_email = user_email user,
       row_name = user_name user, row_status = UserStatus_value (user_status user),
       row_age = user_age user\<rparr>]"
  by (cases rule: save_cases [where user = user and repo = repo])
     (auto simp add: save_invalid_age save_invalid_name save_duplicate save_insert
           execute_insert_def split: sum.splits prod.splits if_splits)

lemma save_snd:
  "snd (SQLAlchemyUserRepository_save repo user) = repo \<or>
   (\<not> user_age user < 18 \<and> strip (user_name user) \<noteq> [] \<and>
    \<not> (\<exists>r \<in> set (users repo). row_email r = user_email user) \<and>
    sqlite_int (next_rowid (users repo)) \<and>
    users (snd (SQLAlchemyUserRepository_save repo user)) = users repo @
      [\<lparr>row_id = next_rowid (users repo), row_email = user_email user,
        row_name = user_name user, row_status = UserStatus_value (user_status user),
        row_age = user_age user\<rparr>])"
proof (cases "SQLAlchemyUserRepository_save repo user")
  case (Pair res repo')
  show ?thesis
  proof (cases res)
    case (Inl e)
    with Pair save_error_unchanged [of repo user e repo'] show ?thesis by simp
  next
    case (Inr saved)
    with Pair save_success [of repo user saved repo'] show ?thesis by simp
  qed
qed

text \<open>What holds of every row in every state the program reaches.\<close>

lemma reachable_rows:
  "reachable repo \<Longrightarrow>
   distinct (map row_email (users repo)) \<and> distinct (map row_id (users repo)) \<and>
   (\<forall>r \<in> set (users repo). 18 \<le> row_age r \<and> strip (row_name r) \<noteq> [] \<and>
      sqlite_int (row_id r) \<and> (\<exists>st. row_status r = UserStatus_value st))"
proof (induction rule: reachable.induct)
  case reachable_init
  show ?case by (simp add: SQLAlchemyUserRepository_init_def)
next
  case (reachable_save repo user)
  from save_snd [of repo user] show ?case
  proof
    assume "snd (SQLAlchemyUserRepository_save repo user) = repo"
    with reachable_save.IH show ?thesis by simp
  next
    assume new: "\<not> user_age user < 18 \<and> strip (user_name user) \<noteq> [] \<and>
      \<not> (\<exists>r \<in> set (users repo). row_email r = user_email user) \<and>
      sqlite_int (next_rowid (users repo)) \<and>
      users (snd (SQLAlchemyUserRepository_save repo user)) = users repo @
        [\<lparr>row_id = next_rowid (users repo), row_email = user_email user,
          row_name = user_name user, row_status = UserStatus_value (user_status user),
          row_age = user_age user\<rparr>]"
    have fresh: "next_rowid (users repo) \<notin> row_id ` set (users repo)"
      using next_rowid_fresh [of _ "users repo"] by fastforce
    from new reachable_save.IH fresh show ?thesis
      by auto
  qed
qed

section \<open>Facts about the service\<close>

lemma create_user_rejected:
  "V email = Inl err \<Longrightarrow>
   UserService_create_user V repo email name age status =
     (Inl (AppBaseException (Some (''Error al crear usuario: '' @ message err))), repo)"
  by (simp add: UserService_create_user_def)

lemma create_user_save:
  "V email = Inr em \<Longrightarrow>
   UserService_create_user V repo email name age status =
     (case SQLAlchemyUserRepository_save repo
             \<lparr>user_id = None, user_email = em, user_name = name,
              user_status = status, user_age = age\<rparr> of
        (Inr saved_user, repo') \<Rightarrow> (Inr saved_user, repo')
      | (Inl e, repo') \<Rightarrow>
          if cls e = InvalidAge \<or> cls e = InvalidUserName \<or> cls e = DuplicateEmail
            then (Inl e, repo')
          else (Inl (AppBaseException (Some (''Error al crear usuario: '' @ message e))), repo'))"
  by (simp add: UserService_create_user_def)

lemma create_user_success:
  "UserService_create_user V repo email name age status = (Inr u, repo') \<Longrightarrow>
   \<exists>em. V email = Inr em \<and>
     \<not> age < 18 \<and> strip name \<noteq> [] \<and> \<not> (\<exists>r \<in> set (users repo). row_email r = em) \<and>
     sqlite_int (next_rowid (users repo)) \<and>
     u = \<lparr>user_id = Some (next_rowid (users repo)), user_email = em, user_name = name,
          user_status = status, user_age = age\<rparr> \<and>
     users repo' = users repo @
       [\<lparr>row_id = next_rowid (users repo), row_email = em, row_name = name,
         row_status = UserStatus_value status, row_age = age\<rparr>]"
proof (cases "V email")
  case (Inl err)
  assume "UserService_create_user V repo email name age status = (Inr u, repo')"
  with Inl show ?thesis
    by (simp add: UserService_create_user_def)
next
  case (Inr em)
  let ?new = "\<lparr>user_id = None, user_email = em, user_name = name,
               user_status = status, user_age = age\<rparr>"
  assume "UserService_create_user V repo email name age status = (Inr u, repo')"
  then have "SQLAlchemyUserRepository_save repo ?new = (Inr u, repo')"
    using Inr
    by (auto simp add: UserService_create_user_def split: prod.splits sum.splits if_splits)
  from save_success [OF this] Inr show ?thesis by simp
qed

lemma ascii_EmailStr_examples:
  "ascii_EmailStr ''a@b.com'' = Inr ''a@b.com''"
  "ascii_EmailStr ''Q@B.COM'' = Inr ''Q@b.com''"
  "ascii_EmailStr ''not-an-email'' = Inl \<lparr>cls = Other, message = ''1 validation error for User''\<rparr>"
  by (simp_all add: ascii_EmailStr_def ascii_lower_def)

lemma find_by_id_new_row:
  "sqlite_int (next_rowid rs) \<Longrightarrow>
   users repo' = rs @ [\<lparr>row_id = next_rowid rs, row_email = email, row_name = name,
                        row_status = UserStatus_value status, row_age = age\<rparr>] \<Longrightarrow>
   SQLAlchemyUserRepository_find_by_id repo' (next_rowid rs) =
     Inr \<lparr>user_id = Some (next_rowid rs), user_email = email, user_name = name,
          user_status = status, user_age = age\<rparr>"
proof -
  assume ok: "sqlite_int (next_rowid rs)"
    and rows: "users repo' = rs @ [\<lparr>row_id = next_rowid rs, row_email = email, row_name = name,
                        row_status = UserStatus_value status, row_age = age\<rparr>]"
  have "\<forall>r \<in> set rs. \<not> row_id r = next_rowid rs"
    using next_rowid_fresh [of _ rs] by fastforce
  then have "find (\<lambda>r. row_id r = next_rowid rs) (users repo') =
      Some \<lparr>row_id = next_rowid rs, row_email = email, row_name = name,
            row_status = UserStatus_value status, row_age = age\<rparr>"
    unfolding rows by (rule find_fresh_append) simp
  with ok show ?thesis
    by (simp add: SQLAlchemyUserRepository_find_by_id_def select_where_id_def User_of_row_def
          UserStatus_roundtrip)
qed

section \<open>Facts about the errors that reach the boundary\<close>

lemma find_by_id_error:
  "SQLAlchemyUserRepository_find_by_id repo uid = Inl e \<Longrightarrow>
   cls e = UserNotFound \<and> prefix ''Alphas Error: Alphas Error: '' (message e)"
  by (auto simp add: SQLAlchemyUserRepository_find_by_id_def UserNotFoundException_eq
        split: sum.splits option.splits)

lemma create_user_route_error:
  "create_user V repo d = (Inl e, repo1) \<Longrightarrow>
   cls e = AppBase \<or> cls e = Other \<or> prefix ''Alphas Error: Alphas Error: '' (message e)"
proof (cases "V (req_email d)")
  case (Inl err)
  assume "create_user V repo d = (Inl e, repo1)"
  with Inl show ?thesis
    by (auto simp add: create_user_def UserService_create_user_def AppBaseException_cls)
next
  case (Inr em)
  let ?new = "\<lparr>user_id = None, user_email = em, user_name = req_name d,
               user_status = req_status d, user_age = req_age d\<rparr>"
  assume raised: "create_user V repo d = (Inl e, repo1)"
  obtain res repo' where save: "SQLAlchemyUserRepository_save repo ?new = (res, repo')"
    by (cases "SQLAlchemyUserRepository_save repo ?new")
  show ?thesis
  proof (cases res)
    case (Inl e0)
    from save Inl save_error_cls [of repo ?new e0 repo']
    have "prefix ''Alphas Error: Alphas Error: '' (message e0)"
      by simp
    with raised save Inl \<open>V (req_email d) = Inr em\<close> show ?thesis
      by (auto simp add: create_user_def UserService_create_user_def AppBaseException_cls
            split: if_splits)
  next
    case (Inr saved)
    with raised save \<open>V (req_email d) = Inr em\<close> show ?thesis
      by (auto simp add: create_user_def UserService_create_user_def
            UserResponse_of_def split: option.splits)
  qed
qed

lemma get_user_route_error:
  "get_user repo uid = Inl e \<Longrightarrow>
   cls e = AppBase \<or> cls e = Other \<or> prefix ''Alphas Error: Alphas Error: '' (message e)"
proof (cases "SQLAlchemyUserRepository_find_by_id repo uid")
  case (Inl e0)
  assume "get_user repo uid = Inl e"
  with Inl find_by_id_error [OF Inl] show ?thesis
    by (simp add: get_user_def UserService_get_user_by_id_def)
next
  case (Inr user)
  assume "get_user repo uid = Inl e"
  with Inr show ?thesis
    by (auto simp add: get_user_def UserService_get_user_by_id_def UserResponse_of_def
          split: option.splits)
qed

lemma service_get_user_by_email_error:
  "UserService_get_user_by_email repo email = Inl e \<Longrightarrow>
   cls e = UserNotFound \<and> prefix ''Alphas Error: Alphas Error: '' (message e)"
  by (auto simp add: UserService_get_user_by_email_def UserNotFoundException_eq Let_def
        split: option.splits)

lemma handler_detail:
  "exception_handler e = Some r \<Longrightarrow>
   status_code r = 400 \<or> status_code r = 404 \<or> status_code r = 409 \<Longrightarrow>
   cls e \<noteq> AppBase \<and> cls e \<noteq> Other \<and>
   (\<exists>cat. content r = [(''error'', cat), (''detail'', message e)])"
  by (cases "cls e")
     (auto simp add: exception_handler_def user_not_found_exception_handler_def
        duplicate_email_exception_handler_def invalid_age_exception_handler_def
        invalid_username_exception_handler_def app_base_exception_handler_def)

lemma doubled_detail:
  "exception_handler e = Some r \<Longrightarrow>
   status_code r = 400 \<or> status_code r = 404 \<or> status_code r = 409 \<Longrightarrow>
   cls e = AppBase \<or> cls e = Other \<or> prefix ''Alphas Error: Alphas Error: '' (message e) \<Longrightarrow>
   \<exists>cat rest. content r = [(''error'', cat), (''detail'', base_message @ base_message @ rest)]"
proof -
  assume h: "exception_handler e = Some r"
    and st: "status_code r = 400 \<or> status_code r = 404 \<or> status_code r = 409"
    and p: "cls e = AppBase \<or> cls e = Other \<or> prefix ''Alphas Error: Alphas Error: '' (message e)"
  from handler_detail [OF h st] p
  obtain cat rest where "content r = [(''error'', cat), (''detail'', message e)]"
    and "message e = ''Alphas Error: Alphas Error: '' @ rest"
    by (auto simp add: prefix_def)
  then have "content r = [(''error'', cat), (''detail'', base_message @ base_message @ rest)]"
    by (simp add: base_message_def)
  then show ?thesis by blast
qed

section \<open>The claims\<close>

text \<open>
  C1. \<open>save\<close> validates in the order age, name, email: a user with age below 18 fails
  with \<open>InvalidAgeException\<close> whatever the name and the email are; a user of valid age
  whose name is empty after trimming fails with \<open>InvalidUserNameException\<close> whatever the
  email is; and a \<open>save\<close> that fails with \<open>DuplicateEmailException\<close> had a valid age and a
  valid name.
\<close>

theorem save_validation_order:
  "(user_age user < 18 \<longrightarrow>
      SQLAlchemyUserRepository_save repo user =
        (Inl (InvalidAgeException (''La edad debe ser mayor o igual a 18 a'' @ [CHR 0xF1] @ ''os'')), repo)) \<and>
   (18 \<le> user_age user \<and> strip (user_name user) = [] \<longrightarrow>
      SQLAlchemyUserRepository_save repo user =
        (Inl (InvalidUserNameException (''El nombre no puede estar vac'' @ [CHR 0xED] @ ''o o en blanco'')), repo)) \<and>
   (SQLAlchemyUserRepository_save repo user = (Inl e, repo') \<and> cls e = DuplicateEmail \<longrightarrow>
      18 \<le> user_age user \<and> strip (user_name user) \<noteq> [])"
proof (intro conjI impI)
  assume "user_age user < 18"
  then show "SQLAlchemyUserRepository_save repo user =
      (Inl (InvalidAgeException (''La edad debe ser mayor o igual a 18 a'' @ [CHR 0xF1] @ ''os'')), repo)"
    by (rule save_invalid_age)
next
  assume "18 \<le> user_age user \<and> strip (user_name user) = []"
  then show "SQLAlchemyUserRepository_save repo user =
      (Inl (InvalidUserNameException (''El nombre no puede estar vac'' @ [CHR 0xED] @ ''o o en blanco'')), repo)"
    by (simp add: save_invalid_name)
next
  assume a: "SQLAlchemyUserRepository_save repo user = (Inl e, repo') \<and> cls e = DuplicateEmail"
  with save_error_cls [of repo user e repo'] show "18 \<le> user_age user" by simp
  from a save_error_cls [of repo user e repo'] show "strip (user_name user) \<noteq> []" by simp
qed

theorem save_validation_order_witness:
  "SQLAlchemyUserRepository_save
     \<lparr>users = [\<lparr>row_id = 1, row_email = ''a@b.com'', row_name = ''Ann'', row_status = ''active'', row_age = 25\<rparr>]\<rparr>
     \<lparr>user_id = None, user_email = ''a@b.com'', user_name = ''  '', user_status = ACTIVE, user_age = 10\<rparr>
   = (Inl (InvalidAgeException (''La edad debe ser mayor o igual a 18 a'' @ [CHR 0xF1] @ ''os'')),
      \<lparr>users = [\<lparr>row_id = 1, row_email = ''a@b.com'', row_name = ''Ann'', row_status = ''active'', row_age = 25\<rparr>]\<rparr>) \<and>
   SQLAlchemyUserRepository_save
     \<lparr>users = [\<lparr>row_id = 1, row_email = ''a@b.com'', row_name = ''Ann'', row_status = ''active'', row_age = 25\<rparr>]\<rparr>
     \<lparr>user_id = None, user_email = ''a@b.com'', user_name = ''  '', user_status = ACTIVE, user_age = 20\<rparr>
   = (Inl (InvalidUserNameException (''El nombre no puede estar vac'' @ [CHR 0xED] @ ''o o en blanco'')),
      \<lparr>users = [\<lparr>row_id = 1, row_email = ''a@b.com'', row_name = ''Ann'', row_status = ''active'', row_age = 25\<rparr>]\<rparr>) \<and>
   SQLAlchemyUserRepository_save
     \<lparr>users = [\<lparr>row_id = 1, row_email = ''a@b.com'', row_name = ''Ann'', row_status = ''active'', row_age = 25\<rparr>]\<rparr>
     \<lparr>user_id = None, user_email = ''a@b.com'', user_name = ''Bob'', user_status = ACTIVE, user_age = 20\<rparr>
   = (Inl (DuplicateEmailException ''El email ya existe en la base de datos''),
      \<lparr>users = [\<lparr>row_id = 1, row_email = ''a@b.com'', row_name = ''Ann'', row_status = ''active'', row_age = 25\<rparr>]\<rparr>) \<and>
   (18::int) \<le> 20 \<and> strip ''Bob'' \<noteq> []"
proof -
  let ?repo = "\<lparr>users = [\<lparr>row_id = 1, row_email = ''a@b.com'', row_name = ''Ann'', row_status = ''active'', row_age = 25\<rparr>]\<rparr>"
  let ?u1 = "\<lparr>user_id = None, user_email = ''a@b.com'', user_name = ''  '', user_status = ACTIVE, user_age = 10\<rparr>"
  let ?u2 = "\<lparr>user_id = None, user_email = ''a@b.com'', user_name = ''  '', user_status = ACTIVE, user_age = 20\<rparr>"
  let ?u3 = "\<lparr>user_id = None, user_email = ''a@b.com'', user_name = ''Bob'', user_status = ACTIVE, user_age = 20\<rparr>"
  let ?e = "DuplicateEmailException ''El email ya existe en la base de datos''"
  have h1: "user_age ?u1 < 18"
    by simp
  have h2: "18 \<le> user_age ?u2 \<and> strip (user_name ?u2) = []"
    by (simp add: strip_def py_isspace_def)
  have h3: "SQLAlchemyUserRepository_save ?repo ?u3 = (Inl ?e, ?repo) \<and> cls ?e = DuplicateEmail"
    by (simp add: SQLAlchemyUserRepository_save_def email_exists_eq strip_def py_isspace_def
          exc_eqs)
  from h1 save_validation_order [of ?u1 ?repo]
  have c1: "SQLAlchemyUserRepository_save ?repo ?u1 =
      (Inl (InvalidAgeException (''La edad debe ser mayor o igual a 18 a'' @ [CHR 0xF1] @ ''os'')), ?repo)"
    by blast
  from h2 save_validation_order [of ?u2 ?repo]
  have c2: "SQLAlchemyUserRepository_save ?repo ?u2 =
      (Inl (InvalidUserNameException (''El nombre no puede estar vac'' @ [CHR 0xED] @ ''o o en blanco'')), ?repo)"
    by blast
  from h3 save_validation_order [of ?u3 ?repo ?e ?repo]
  have c3: "18 \<le> user_age ?u3 \<and> strip (user_name ?u3) \<noteq> []"
    by blast
  from c1 c2 h3 c3 show ?thesis
    by simp
qed

text \<open>
  C3. The claim says that \<open>save\<close> follows the configured minimum. It fails where the
  environment sets \<open>MIN_USER_AGE\<close> to 21: \<open>save\<close> compares the age with the literal 18 and
  stores a user of age 19.
\<close>

theorem save_ignores_configured_minimum:
  "MIN_USER_AGE (Settings_init (Some 21)) = 21 \<and>
   user_age \<lparr>user_id = None, user_email = ''a@b.com'', user_name = ''Ann'',
             user_status = ACTIVE, user_age = 19\<rparr> < MIN_USER_AGE (Settings_init (Some 21)) \<and>
   SQLAlchemyUserRepository_save SQLAlchemyUserRepository_init
     \<lparr>user_id = None, user_email = ''a@b.com'', user_name = ''Ann'',
      user_status = ACTIVE, user_age = 19\<rparr> =
     (Inr \<lparr>user_id = Some 1, user_email = ''a@b.com'', user_name = ''Ann'',
           user_status = ACTIVE, user_age = 19\<rparr>,
      \<lparr>users = [\<lparr>row_id = 1, row_email = ''a@b.com'', row_name = ''Ann'',
                  row_status = ''active'', row_age = 19\<rparr>]\<rparr>)"
  by (simp add: Settings_init_def SQLAlchemyUserRepository_save_def
        SQLAlchemyUserRepository_init_def email_exists_eq strip_def py_isspace_def
        execute_insert_def next_rowid_def sqlite_int_def)

text \<open>
  C3, as the code has it. The threshold of \<open>save\<close> is the constant 18, which is the
  default of \<open>MIN_USER_AGE\<close>: \<open>save\<close> fails with \<open>InvalidAgeException\<close> exactly when the
  user's age is below 18, and no row of a reachable state has an age below 18.
\<close>

theorem save_age_threshold:
  "MIN_USER_AGE (Settings_init None) = 18 \<and>
   ((\<exists>e. fst (SQLAlchemyUserRepository_save repo user) = Inl e \<and> cls e = InvalidAge)
      \<longleftrightarrow> user_age user < 18) \<and>
   (reachable repo' \<longrightarrow> (\<forall>r \<in> set (users repo'). 18 \<le> row_age r))"
proof (intro conjI)
  show "MIN_USER_AGE (Settings_init None) = 18"
    by (simp add: Settings_init_def)
next
  show "(\<exists>e. fst (SQLAlchemyUserRepository_save repo user) = Inl e \<and> cls e = InvalidAge)
      \<longleftrightarrow> user_age user < 18"
  proof
    assume "\<exists>e. fst (SQLAlchemyUserRepository_save repo user) = Inl e \<and> cls e = InvalidAge"
    then obtain e where e: "fst (SQLAlchemyUserRepository_save repo user) = Inl e"
      and c: "cls e = InvalidAge" by blast
    from e have "SQLAlchemyUserRepository_save repo user =
        (Inl e, snd (SQLAlchemyUserRepository_save repo user))"
      by (simp add: prod_eq_iff)
    from save_error_cls [OF this] c show "user_age user < 18" by simp
  next
    assume "user_age user < 18"
    then show "\<exists>e. fst (SQLAlchemyUserRepository_save repo user) = Inl e \<and> cls e = InvalidAge"
      by (simp add: save_invalid_age InvalidAgeException_eq)
  qed
next
  show "reachable repo' \<longrightarrow> (\<forall>r \<in> set (users repo'). 18 \<le> row_age r)"
    using reachable_rows [of repo'] by blast
qed

theorem save_age_threshold_witness:
  "reachable (snd (SQLAlchemyUserRepository_save SQLAlchemyUserRepository_init
      \<lparr>user_id = None, user_email = ''a@b.com'', user_name = ''Ann'',
       user_status = ACTIVE, user_age = 25\<rparr>)) \<and>
   users (snd (SQLAlchemyUserRepository_save SQLAlchemyUserRepository_init
      \<lparr>user_id = None, user_email = ''a@b.com'', user_name = ''Ann'',
       user_status = ACTIVE, user_age = 25\<rparr>)) =
     [\<lparr>row_id = 1, row_email = ''a@b.com'', row_name = ''Ann'', row_status = ''active'',
       row_age = 25\<rparr>] \<and>
   18 \<le> row_age \<lparr>row_id = 1, row_email = ''a@b.com'', row_name = ''Ann'',
                  row_status = ''active'', row_age = 25\<rparr> \<and>
   (\<exists>e. fst (SQLAlchemyUserRepository_save SQLAlchemyUserRepository_init
      \<lparr>user_id = None, user_email = ''a@b.com'', user_name = ''Ann'',
       user_status = ACTIVE, user_age = 17\<rparr>) = Inl e \<and> cls e = InvalidAge)"
proof -
  let ?u = "\<lparr>user_id = None, user_email = ''a@b.com'', user_name = ''Ann'',
       user_status = ACTIVE, user_age = 25\<rparr>"
  let ?v = "\<lparr>user_id = None, user_email = ''a@b.com'', user_name = ''Ann'',
       user_status = ACTIVE, user_age = 17\<rparr>"
  let ?repo = "snd (SQLAlchemyUserRepository_save SQLAlchemyUserRepository_init ?u)"
  have r: "reachable ?repo"
    by (rule reachable_save) (rule reachable_init)
  have rows: "users ?repo = [\<lparr>row_id = 1, row_email = ''a@b.com'', row_name = ''Ann'',
      row_status = ''active'', row_age = 25\<rparr>]"
    by (simp add: SQLAlchemyUserRepository_save_def
        SQLAlchemyUserRepository_init_def email_exists_eq strip_def py_isspace_def
        execute_insert_def next_rowid_def sqlite_int_def)
  have young: "user_age ?v < 18"
    by simp
  from r save_age_threshold [of SQLAlchemyUserRepository_init ?v ?repo]
  have "\<forall>r \<in> set (users ?repo). 18 \<le> row_age r"
    by blast
  with rows have "18 \<le> row_age \<lparr>row_id = 1, row_email = ''a@b.com'', row_name = ''Ann'',
      row_status = ''active'', row_age = 25\<rparr>"
    by simp
  moreover from young save_age_threshold [of SQLAlchemyUserRepository_init ?v ?repo]
  have "\<exists>e. fst (SQLAlchemyUserRepository_save SQLAlchemyUserRepository_init ?v) = Inl e
      \<and> cls e = InvalidAge"
    by blast
  ultimately show ?thesis
    using r rows by blast
qed

text \<open>
  C5. The claim says that \<open>create_user\<close> fails with \<open>InvalidAgeException\<close> for every age
  below the minimum and every email. It fails for the email \<open>not-an-email\<close> with age 17:
  building the \<open>User\<close> raises the validation error before \<open>save\<close> and its age check run,
  and \<open>create_user\<close> raises \<open>AppBaseException\<close>.
\<close>

theorem create_user_invalid_email_before_age:
  "(17::int) < 18 \<and>
   raised_class (fst (UserService_create_user ascii_EmailStr SQLAlchemyUserRepository_init
      ''not-an-email'' ''Ann'' 17 ACTIVE)) = Some AppBase \<and>
   raised_class (fst (UserService_create_user ascii_EmailStr SQLAlchemyUserRepository_init
      ''not-an-email'' ''Ann'' 17 ACTIVE)) \<noteq> Some InvalidAge"
  by (simp add: raised_class_def UserService_create_user_def ascii_EmailStr_examples
        AppBaseException_cls)

text \<open>
  C5, as the code has it. For every age below 18, every name and every email that the
  validation of the \<open>User\<close> model accepts, \<open>create_user\<close> fails with
  \<open>InvalidAgeException\<close> and leaves the repository as it was: the table has the same
  rows, and \<open>email_exists\<close> answers every email as it did before the call. For an email
  that the validation rejects, \<open>create_user\<close> fails with \<open>AppBaseException\<close> whatever the
  age is, and leaves the repository as it was too.
\<close>

theorem create_user_invalid_age_atomic:
  "(age < 18 \<and> V email = Inr em \<longrightarrow>
     UserService_create_user V repo email name age status =
       (Inl (InvalidAgeException (''La edad debe ser mayor o igual a 18 a'' @ [CHR 0xF1] @ ''os'')), repo) \<and>
     cls (InvalidAgeException (''La edad debe ser mayor o igual a 18 a'' @ [CHR 0xF1] @ ''os'')) = InvalidAge \<and>
     users (snd (UserService_create_user V repo email name age status)) = users repo \<and>
     (\<forall>e. SQLAlchemyUserRepository_email_exists
             (snd (UserService_create_user V repo email name age status)) e =
           SQLAlchemyUserRepository_email_exists repo e)) \<and>
   (V email = Inl err \<longrightarrow>
     UserService_create_user V repo email name age status =
       (Inl (AppBaseException (Some (''Error al crear usuario: '' @ message err))), repo) \<and>
     cls (AppBaseException (Some (''Error al crear usuario: '' @ message err))) = AppBase)"
  by (simp add: UserService_create_user_def save_invalid_age InvalidAgeException_eq
        AppBaseException_cls)

theorem create_user_invalid_age_atomic_witness:
  "(17::int) < 18 \<and> ascii_EmailStr ''Q@B.COM'' = Inr ''Q@b.com'' \<and>
   UserService_create_user ascii_EmailStr SQLAlchemyUserRepository_init ''Q@B.COM'' [] 17 ACTIVE =
     (Inl (InvalidAgeException (''La edad debe ser mayor o igual a 18 a'' @ [CHR 0xF1] @ ''os'')),
      SQLAlchemyUserRepository_init) \<and>
   SQLAlchemyUserRepository_email_exists
     (snd (UserService_create_user ascii_EmailStr SQLAlchemyUserRepository_init ''Q@B.COM'' [] 17 ACTIVE))
     ''Q@b.com'' = Inr False \<and>
   ascii_EmailStr ''not-an-email'' =
     Inl \<lparr>cls = Other, message = ''1 validation error for User''\<rparr> \<and>
   UserService_create_user ascii_EmailStr SQLAlchemyUserRepository_init ''not-an-email'' ''Ann'' 17 ACTIVE =
     (Inl (AppBaseException (Some (''Error al crear usuario: '' @ ''1 validation error for User''))),
      SQLAlchemyUserRepository_init)"
proof -
  let ?init = SQLAlchemyUserRepository_init
  let ?err = "\<lparr>cls = Other, message = ''1 validation error for User''\<rparr>"
  have h: "(17::int) < 18 \<and> ascii_EmailStr ''Q@B.COM'' = Inr ''Q@b.com''"
    by (simp add: ascii_EmailStr_examples)
  have r: "ascii_EmailStr ''not-an-email'' = Inl ?err"
    by (simp add: ascii_EmailStr_examples)
  from h create_user_invalid_age_atomic
    [where age = 17 and V = ascii_EmailStr and email = "''Q@B.COM''" and em = "''Q@b.com''"
       and repo = ?init and name = "[]" and status = ACTIVE]
  have young: "UserService_create_user ascii_EmailStr ?init ''Q@B.COM'' [] 17 ACTIVE =
     (Inl (InvalidAgeException (''La edad debe ser mayor o igual a 18 a'' @ [CHR 0xF1] @ ''os'')),
      ?init)"
    by blast
  from r create_user_invalid_age_atomic
    [where V = ascii_EmailStr and email = "''not-an-email''" and err = ?err
       and repo = ?init and name = "''Ann''" and age = 17 and status = ACTIVE]
  have rejected: "UserService_create_user ascii_EmailStr ?init ''not-an-email'' ''Ann'' 17 ACTIVE =
     (Inl (AppBaseException (Some (''Error al crear usuario: '' @ message ?err))), ?init)"
    by blast
  from h r young rejected show ?thesis
    by (simp add: email_exists_eq SQLAlchemyUserRepository_init_def)
qed



text \<open>
  C2. After a \<open>create_user\<close> that succeeded, a second \<open>create_user\<close> with the same email
  and any valid name and age fails with \<open>DuplicateEmailException\<close> and leaves the
  repository as the first call left it: \<open>find_by_id\<close> on the first user's id, in the
  repository after the second call, still returns the first user as the first call
  returned it, with the name, age and status of the first call and the email as the
  validation returned it (the email of the call itself where the validation leaves it
  unchanged). In every reachable state no two rows have the same email.
\<close>

theorem second_create_duplicate_email:
  "(UserService_create_user V repo email name age status = (Inr u, repo1) \<and>
    18 \<le> age2 \<and> strip name2 \<noteq> [] \<longrightarrow>
      UserService_create_user V repo1 email name2 age2 status2 =
        (Inl (DuplicateEmailException ''El email ya existe en la base de datos''), repo1) \<and>
      cls (DuplicateEmailException ''El email ya existe en la base de datos'') = DuplicateEmail \<and>
      (\<exists>i em. V email = Inr em \<and>
         u = \<lparr>user_id = Some i, user_email = em, user_name = name,
              user_status = status, user_age = age\<rparr> \<and>
         SQLAlchemyUserRepository_find_by_id
           (snd (UserService_create_user V repo1 email name2 age2 status2)) i =
           Inr \<lparr>user_id = Some i, user_email = em, user_name = name,
                user_status = status, user_age = age\<rparr>) \<and>
      (V email = Inr email \<longrightarrow> user_email u = email)) \<and>
   (reachable repo2 \<longrightarrow> distinct (map row_email (users repo2)))"
proof (intro conjI impI)
  assume a: "UserService_create_user V repo email name age status = (Inr u, repo1) \<and>
    18 \<le> age2 \<and> strip name2 \<noteq> []"
  then have ok: "UserService_create_user V repo email name age status = (Inr u, repo1)"
    by simp
  let ?i = "next_rowid (users repo)"
  from create_user_success [OF ok] obtain em
    where em: "V email = Inr em"
    and u: "u = \<lparr>user_id = Some ?i, user_email = em, user_name = name,
                 user_status = status, user_age = age\<rparr>"
    and fits: "sqlite_int ?i"
    and rows: "users repo1 = users repo @
        [\<lparr>row_id = ?i, row_email = em, row_name = name,
          row_status = UserStatus_value status, row_age = age\<rparr>]"
    by blast
  from rows have stored: "\<exists>r \<in> set (users repo1). row_email r = em"
    by simp
  with a em show second: "UserService_create_user V repo1 email name2 age2 status2 =
        (Inl (DuplicateEmailException ''El email ya existe en la base de datos''), repo1)"
    by (simp add: UserService_create_user_def save_duplicate DuplicateEmailException_eq)
  show "cls (DuplicateEmailException ''El email ya existe en la base de datos'') = DuplicateEmail"
    by (simp add: DuplicateEmailException_eq)
  from find_by_id_new_row [OF fits rows] u second em
  show "\<exists>i em. V email = Inr em \<and>
         u = \<lparr>user_id = Some i, user_email = em, user_name = name,
              user_status = status, user_age = age\<rparr> \<and>
         SQLAlchemyUserRepository_find_by_id
           (snd (UserService_create_user V repo1 email name2 age2 status2)) i =
           Inr \<lparr>user_id = Some i, user_email = em, user_name = name,
                user_status = status, user_age = age\<rparr>"
    by simp
  show "user_email u = email" if "V email = Inr email"
    using that em u by simp
next
  assume "reachable repo2"
  from reachable_rows [OF this] show "distinct (map row_email (users repo2))"
    by simp
qed

theorem second_create_duplicate_email_witness:
  "UserService_create_user ascii_EmailStr SQLAlchemyUserRepository_init ''Q@B.COM'' ''Ann'' 25 ACTIVE =
     (Inr \<lparr>user_id = Some 1, user_email = ''Q@b.com'', user_name = ''Ann'',
           user_status = ACTIVE, user_age = 25\<rparr>,
      \<lparr>users = [\<lparr>row_id = 1, row_email = ''Q@b.com'', row_name = ''Ann'',
                  row_status = ''active'', row_age = 25\<rparr>]\<rparr>) \<and>
   (18::int) \<le> 30 \<and> strip ''Bob'' \<noteq> [] \<and>
   UserService_create_user ascii_EmailStr
      \<lparr>users = [\<lparr>row_id = 1, row_email = ''Q@b.com'', row_name = ''Ann'',
                  row_status = ''active'', row_age = 25\<rparr>]\<rparr> ''Q@B.COM'' ''Bob'' 30 INACTIVE =
     (Inl (DuplicateEmailException ''El email ya existe en la base de datos''),
      \<lparr>users = [\<lparr>row_id = 1, row_email = ''Q@b.com'', row_name = ''Ann'',
                  row_status = ''active'', row_age = 25\<rparr>]\<rparr>) \<and>
   UserService_create_user ascii_EmailStr SQLAlchemyUserRepository_init ''a@b.com'' ''Ann'' 25 ACTIVE =
     (Inr \<lparr>user_id = Some 1, user_email = ''a@b.com'', user_name = ''Ann'',
           user_status = ACTIVE, user_age = 25\<rparr>,
      \<lparr>users = [\<lparr>row_id = 1, row_email = ''a@b.com'', row_name = ''Ann'',
                  row_status = ''active'', row_age = 25\<rparr>]\<rparr>) \<and>
   ascii_EmailStr ''a@b.com'' = Inr ''a@b.com'' \<and>
   user_email \<lparr>user_id = Some 1, user_email = ''a@b.com'', user_name = ''Ann'',
               user_status = ACTIVE, user_age = 25\<rparr> = ''a@b.com'' \<and>
   reachable (snd (SQLAlchemyUserRepository_save SQLAlchemyUserRepository_init
      \<lparr>user_id = None, user_email = ''a@b.com'', user_name = ''Ann'',
       user_status = ACTIVE, user_age = 25\<rparr>)) \<and>
   distinct (map row_email (users (snd (SQLAlchemyUserRepository_save SQLAlchemyUserRepository_init
      \<lparr>user_id = None, user_email = ''a@b.com'', user_name = ''Ann'',
       user_status = ACTIVE, user_age = 25\<rparr>))))"
proof -
  let ?u = "\<lparr>user_id = Some 1, user_email = ''Q@b.com'', user_name = ''Ann'',
           user_status = ACTIVE, user_age = 25\<rparr>"
  let ?repo1 = "\<lparr>users = [\<lparr>row_id = 1, row_email = ''Q@b.com'', row_name = ''Ann'',
                  row_status = ''active'', row_age = 25\<rparr>]\<rparr>"
  let ?repo2 = "snd (SQLAlchemyUserRepository_save SQLAlchemyUserRepository_init
      \<lparr>user_id = None, user_email = ''a@b.com'', user_name = ''Ann'',
       user_status = ACTIVE, user_age = 25\<rparr>)"
  have first: "UserService_create_user ascii_EmailStr SQLAlchemyUserRepository_init
      ''Q@B.COM'' ''Ann'' 25 ACTIVE = (Inr ?u, ?repo1)"
    by (simp add: UserService_create_user_def ascii_EmailStr_examples
        SQLAlchemyUserRepository_save_def
        SQLAlchemyUserRepository_init_def email_exists_eq strip_def py_isspace_def
        execute_insert_def next_rowid_def sqlite_int_def)
  have valid: "(18::int) \<le> 30 \<and> strip ''Bob'' \<noteq> []"
    by (simp add: strip_def py_isspace_def)
  have r: "reachable ?repo2"
    by (rule reachable_save) (rule reachable_init)
  note inst = second_create_duplicate_email
    [where V = ascii_EmailStr and repo = SQLAlchemyUserRepository_init
       and email = "''Q@B.COM''" and name = "''Ann''" and age = 25 and status = ACTIVE
       and u = ?u and ?repo1.0 = ?repo1 and ?age2.0 = 30 and ?name2.0 = "''Bob''"
       and ?status2.0 = INACTIVE and ?repo2.0 = ?repo2]
  from first valid inst
  have "UserService_create_user ascii_EmailStr ?repo1 ''Q@B.COM'' ''Bob'' 30 INACTIVE =
      (Inl (DuplicateEmailException ''El email ya existe en la base de datos''), ?repo1)"
    by blast
  moreover from r inst have "distinct (map row_email (users ?repo2))"
    by blast
  moreover
  let ?ua = "\<lparr>user_id = Some 1, user_email = ''a@b.com'', user_name = ''Ann'',
           user_status = ACTIVE, user_age = 25\<rparr>"
  let ?repoa = "\<lparr>users = [\<lparr>row_id = 1, row_email = ''a@b.com'', row_name = ''Ann'',
                  row_status = ''active'', row_age = 25\<rparr>]\<rparr>"
  have same: "UserService_create_user ascii_EmailStr SQLAlchemyUserRepository_init
      ''a@b.com'' ''Ann'' 25 ACTIVE = (Inr ?ua, ?repoa)"
    by (simp add: UserService_create_user_def ascii_EmailStr_examples
        SQLAlchemyUserRepository_save_def
        SQLAlchemyUserRepository_init_def email_exists_eq strip_def py_isspace_def
        execute_insert_def next_rowid_def sqlite_int_def)
  have kept: "ascii_EmailStr ''a@b.com'' = Inr ''a@b.com''"
    by (simp add: ascii_EmailStr_examples)
  from same valid kept second_create_duplicate_email
    [where V = ascii_EmailStr and repo = SQLAlchemyUserRepository_init
       and email = "''a@b.com''" and name = "''Ann''" and age = 25 and status = ACTIVE
       and u = ?ua and ?repo1.0 = ?repoa and ?age2.0 = 30 and ?name2.0 = "''Bob''"
       and ?status2.0 = INACTIVE and ?repo2.0 = ?repo2]
  have "user_email ?ua = ''a@b.com''"
    by blast
  ultimately show ?thesis
    using first valid r same kept by simp
qed

text \<open>
  C8. Where \<open>find_by_id\<close> returns the user \<open>u\<close> for an id, \<open>update_user_status\<close> with a
  status \<open>s\<close> returns \<open>u\<close> with its status set to \<open>s\<close> and every other field as it was,
  and the repository it leaves is the one it was given: \<open>find_by_id\<close> there still returns
  \<open>u\<close>, with the status and the fields of the stored row. In a reachable state
  \<open>find_by_id\<close> returns a user for the id of every row, with the fields of that row.
\<close>

theorem update_user_status_not_persisted:
  "(SQLAlchemyUserRepository_find_by_id repo uid = Inr u \<longrightarrow>
      UserService_update_user_status repo uid s = (Inr (u\<lparr>user_status := s\<rparr>), repo) \<and>
      user_status (u\<lparr>user_status := s\<rparr>) = s \<and>
      SQLAlchemyUserRepository_find_by_id
        (snd (UserService_update_user_status repo uid s)) uid = Inr u) \<and>
   (reachable repo' \<and> r \<in> set (users repo') \<longrightarrow>
      (\<exists>st. row_status r = UserStatus_value st \<and>
         SQLAlchemyUserRepository_find_by_id repo' (row_id r) =
           Inr \<lparr>user_id = Some (row_id r), user_email = row_email r, user_name = row_name r,
                user_status = st, user_age = row_age r\<rparr>))"
proof (intro conjI impI)
  assume found: "SQLAlchemyUserRepository_find_by_id repo uid = Inr u"
  then show upd: "UserService_update_user_status repo uid s = (Inr (u\<lparr>user_status := s\<rparr>), repo)"
    by (simp add: UserService_update_user_status_def UserService_get_user_by_id_def)
  show "user_status (u\<lparr>user_status := s\<rparr>) = s"
    by simp
  from found upd show "SQLAlchemyUserRepository_find_by_id
        (snd (UserService_update_user_status repo uid s)) uid = Inr u"
    by simp
next
  assume a: "reachable repo' \<and> r \<in> set (users repo')"
  from a reachable_rows [of repo']
  have d: "distinct (map row_id (users repo'))" and fits: "sqlite_int (row_id r)"
    and st: "\<exists>st. row_status r = UserStatus_value st"
    by auto
  from st obtain st where st: "row_status r = UserStatus_value st" ..
  from a d have "find (\<lambda>x. row_id x = row_id r) (users repo') = Some r"
    by (simp add: find_distinct_key)
  with fits st
  have "SQLAlchemyUserRepository_find_by_id repo' (row_id r) =
      Inr \<lparr>user_id = Some (row_id r), user_email = row_email r, user_name = row_name r,
           user_status = st, user_age = row_age r\<rparr>"
    by (simp add: SQLAlchemyUserRepository_find_by_id_def select_where_id_def User_of_row_def
          UserStatus_roundtrip)
  with st show "\<exists>st. row_status r = UserStatus_value st \<and>
         SQLAlchemyUserRepository_find_by_id repo' (row_id r) =
           Inr \<lparr>user_id = Some (row_id r), user_email = row_email r, user_name = row_name r,
                user_status = st, user_age = row_age r\<rparr>"
    by blast
qed

theorem update_user_status_not_persisted_witness:
  "SQLAlchemyUserRepository_find_by_id
     (snd (SQLAlchemyUserRepository_save SQLAlchemyUserRepository_init
        \<lparr>user_id = None, user_email = ''a@b.com'', user_name = ''Ann'',
         user_status = ACTIVE, user_age = 25\<rparr>)) 1 =
     Inr \<lparr>user_id = Some 1, user_email = ''a@b.com'', user_name = ''Ann'',
          user_status = ACTIVE, user_age = 25\<rparr> \<and>
   fst (UserService_update_user_status
     (snd (SQLAlchemyUserRepository_save SQLAlchemyUserRepository_init
        \<lparr>user_id = None, user_email = ''a@b.com'', user_name = ''Ann'',
         user_status = ACTIVE, user_age = 25\<rparr>)) 1 INACTIVE) =
     Inr \<lparr>user_id = Some 1, user_email = ''a@b.com'', user_name = ''Ann'',
          user_status = INACTIVE, user_age = 25\<rparr> \<and>
   SQLAlchemyUserRepository_find_by_id
     (snd (UserService_update_user_status
        (snd (SQLAlchemyUserRepository_save SQLAlchemyUserRepository_init
           \<lparr>user_id = None, user_email = ''a@b.com'', user_name = ''Ann'',
            user_status = ACTIVE, user_age = 25\<rparr>)) 1 INACTIVE)) 1 =
     Inr \<lparr>user_id = Some 1, user_email = ''a@b.com'', user_name = ''Ann'',
          user_status = ACTIVE, user_age = 25\<rparr> \<and>
   reachable (snd (SQLAlchemyUserRepository_save SQLAlchemyUserRepository_init
        \<lparr>user_id = None, user_email = ''a@b.com'', user_name = ''Ann'',
         user_status = ACTIVE, user_age = 25\<rparr>)) \<and>
   \<lparr>row_id = 1, row_email = ''a@b.com'', row_name = ''Ann'', row_status = ''active'',
     row_age = 25\<rparr>
     \<in> set (users (snd (SQLAlchemyUserRepository_save SQLAlchemyUserRepository_init
        \<lparr>user_id = None, user_email = ''a@b.com'', user_name = ''Ann'',
         user_status = ACTIVE, user_age = 25\<rparr>)))"
proof -
  let ?repo = "snd (SQLAlchemyUserRepository_save SQLAlchemyUserRepository_init
        \<lparr>user_id = None, user_email = ''a@b.com'', user_name = ''Ann'',
         user_status = ACTIVE, user_age = 25\<rparr>)"
  let ?r = "\<lparr>row_id = 1, row_email = ''a@b.com'', row_name = ''Ann'', row_status = ''active'',
     row_age = 25\<rparr>"
  let ?u = "\<lparr>user_id = Some 1, user_email = ''a@b.com'', user_name = ''Ann'',
          user_status = ACTIVE, user_age = 25\<rparr>"
  have rows: "users ?repo = [?r]"
    by (simp add: SQLAlchemyUserRepository_save_def
        SQLAlchemyUserRepository_init_def email_exists_eq strip_def py_isspace_def
        execute_insert_def next_rowid_def sqlite_int_def)
  have reach: "reachable ?repo"
    by (rule reachable_save) (rule reachable_init)
  from rows have mem: "?r \<in> set (users ?repo)"
    by simp
  note inst = update_user_status_not_persisted [of ?repo 1 ?u INACTIVE ?repo ?r]
  from reach mem inst
  have "\<exists>st. row_status ?r = UserStatus_value st \<and>
      SQLAlchemyUserRepository_find_by_id ?repo (row_id ?r) =
        Inr \<lparr>user_id = Some (row_id ?r), user_email = row_email ?r, user_name = row_name ?r,
             user_status = st, user_age = row_age ?r\<rparr>"
    by blast
  then obtain st where "''active'' = UserStatus_value st"
    and "SQLAlchemyUserRepository_find_by_id ?repo 1 =
        Inr \<lparr>user_id = Some 1, user_email = ''a@b.com'', user_name = ''Ann'',
             user_status = st, user_age = 25\<rparr>"
    by auto
  moreover from this have "st = ACTIVE"
    by (cases st) simp_all
  ultimately have found: "SQLAlchemyUserRepository_find_by_id ?repo 1 = Inr ?u"
    by simp
  from found inst
  have "UserService_update_user_status ?repo 1 INACTIVE = (Inr (?u\<lparr>user_status := INACTIVE\<rparr>), ?repo)"
    and "SQLAlchemyUserRepository_find_by_id
        (snd (UserService_update_user_status ?repo 1 INACTIVE)) 1 = Inr ?u"
    by blast+
  with found reach mem show ?thesis
    by simp
qed




text \<open>
  C6. Where the dictionary that the repository's \<open>get_user_by_email\<close> returns has the
  key \<open>error\<close>, the service's \<open>get_user_by_email\<close> raises a \<open>UserNotFoundException\<close> built
  from the value under that key, so its message is that value behind the doubled prefix;
  where the dictionary has no such key, the service returns it as it is. For an email
  that no row holds the repository returns the dictionary with the one key \<open>error\<close>.
\<close>

theorem service_get_user_by_email_sentinel:
  "(map_of (SQLAlchemyUserRepository_get_user_by_email repo email) ''error'' = Some err \<longrightarrow>
      UserService_get_user_by_email repo email = Inl (UserNotFoundException (py_str err)) \<and>
      cls (UserNotFoundException (py_str err)) = UserNotFound \<and>
      message (UserNotFoundException (py_str err)) = base_message @ base_message @ py_str err) \<and>
   (map_of (SQLAlchemyUserRepository_get_user_by_email repo email) ''error'' = None \<longrightarrow>
      UserService_get_user_by_email repo email =
        Inr (SQLAlchemyUserRepository_get_user_by_email repo email)) \<and>
   ((\<forall>r \<in> set (users repo). row_email r \<noteq> email) \<longrightarrow>
      SQLAlchemyUserRepository_get_user_by_email repo email =
        [(''error'', PyStr (message (email_not_found email)))])"
proof (intro conjI impI)
  assume s: "map_of (SQLAlchemyUserRepository_get_user_by_email repo email) ''error'' = Some err"
  then show "UserService_get_user_by_email repo email = Inl (UserNotFoundException (py_str err))"
    by (simp add: UserService_get_user_by_email_def)
  show "cls (UserNotFoundException (py_str err)) = UserNotFound"
    by (simp add: UserNotFoundException_eq)
  show "message (UserNotFoundException (py_str err)) = base_message @ base_message @ py_str err"
    by (simp add: UserNotFoundException_eq base_message_def)
next
  assume "map_of (SQLAlchemyUserRepository_get_user_by_email repo email) ''error'' = None"
  then show "UserService_get_user_by_email repo email =
        Inr (SQLAlchemyUserRepository_get_user_by_email repo email)"
    by (simp add: UserService_get_user_by_email_def)
next
  assume "\<forall>r \<in> set (users repo). row_email r \<noteq> email"
  then have "find (\<lambda>r. row_email r = email) (users repo) = None"
    by (simp add: find_None_iff)
  then show "SQLAlchemyUserRepository_get_user_by_email repo email =
        [(''error'', PyStr (message (email_not_found email)))]"
    by (simp add: SQLAlchemyUserRepository_get_user_by_email_def select_where_email_def)
qed

theorem service_get_user_by_email_sentinel_witness:
  "map_of (SQLAlchemyUserRepository_get_user_by_email SQLAlchemyUserRepository_init ''a@b.com'')
      ''error'' =
     Some (PyStr (''Alphas Error: Alphas Error: Usuario con email '' @ [CHR 0x27] @ ''a@b.com''
                   @ [CHR 0x27] @ '' no existe'')) \<and>
   UserService_get_user_by_email SQLAlchemyUserRepository_init ''a@b.com'' =
     Inl \<lparr>cls = UserNotFound,
          message = ''Alphas Error: Alphas Error: Alphas Error: Alphas Error: Usuario con email ''
                    @ [CHR 0x27] @ ''a@b.com'' @ [CHR 0x27] @ '' no existe''\<rparr> \<and>
   map_of (SQLAlchemyUserRepository_get_user_by_email
      \<lparr>users = [\<lparr>row_id = 1, row_email = ''a@b.com'', row_name = ''Ann'',
                  row_status = ''active'', row_age = 25\<rparr>]\<rparr> ''a@b.com'') ''error'' = None \<and>
   UserService_get_user_by_email
      \<lparr>users = [\<lparr>row_id = 1, row_email = ''a@b.com'', row_name = ''Ann'',
                  row_status = ''active'', row_age = 25\<rparr>]\<rparr> ''a@b.com'' =
     Inr [(''id'', PyInt 1), (''email'', PyStr ''a@b.com''), (''name'', PyStr ''Ann''),
          (''status'', PyStatus ACTIVE), (''age'', PyInt 25)] \<and>
   users SQLAlchemyUserRepository_init = [] \<and>
   SQLAlchemyUserRepository_get_user_by_email SQLAlchemyUserRepository_init ''a@b.com'' =
     [(''error'', PyStr (message (email_not_found ''a@b.com'')))]"
proof -
  let ?repo1 = "\<lparr>users = [\<lparr>row_id = 1, row_email = ''a@b.com'', row_name = ''Ann'',
                  row_status = ''active'', row_age = 25\<rparr>]\<rparr>"
  let ?err = "PyStr (''Alphas Error: Alphas Error: Usuario con email '' @ [CHR 0x27] @ ''a@b.com''
                   @ [CHR 0x27] @ '' no existe'')"
  have none: "\<forall>r \<in> set (users SQLAlchemyUserRepository_init). row_email r \<noteq> ''a@b.com''"
    by (simp add: SQLAlchemyUserRepository_init_def)
  have sentinel: "map_of (SQLAlchemyUserRepository_get_user_by_email SQLAlchemyUserRepository_init
      ''a@b.com'') ''error'' = Some ?err"
    by (simp add: SQLAlchemyUserRepository_get_user_by_email_def select_where_email_def
        SQLAlchemyUserRepository_init_def email_not_found_def UserNotFoundException_eq)
  have found: "SQLAlchemyUserRepository_get_user_by_email ?repo1 ''a@b.com'' =
      [(''id'', PyInt 1), (''email'', PyStr ''a@b.com''), (''name'', PyStr ''Ann''),
       (''status'', PyStatus ACTIVE), (''age'', PyInt 25)]"
    by (simp add: SQLAlchemyUserRepository_get_user_by_email_def select_where_email_def
        User_of_row_def UserStatus_of_value_def User_dict_def)
  then have nokey: "map_of (SQLAlchemyUserRepository_get_user_by_email ?repo1 ''a@b.com'')
      ''error'' = None"
    by simp
  from sentinel service_get_user_by_email_sentinel
    [of SQLAlchemyUserRepository_init "''a@b.com''" ?err]
  have "UserService_get_user_by_email SQLAlchemyUserRepository_init ''a@b.com'' =
      Inl (UserNotFoundException (py_str ?err))"
    by blast
  moreover from nokey service_get_user_by_email_sentinel [of ?repo1 "''a@b.com''"]
  have "UserService_get_user_by_email ?repo1 ''a@b.com'' =
      Inr (SQLAlchemyUserRepository_get_user_by_email ?repo1 ''a@b.com'')"
    by blast
  moreover from none service_get_user_by_email_sentinel
    [of SQLAlchemyUserRepository_init "''a@b.com''"]
  have "SQLAlchemyUserRepository_get_user_by_email SQLAlchemyUserRepository_init ''a@b.com'' =
     [(''error'', PyStr (message (email_not_found ''a@b.com'')))]"
    by blast
  ultimately show ?thesis
    using sentinel nokey found
    by (simp add: UserNotFoundException_eq SQLAlchemyUserRepository_init_def)
qed

text \<open>
  C7. The claim says that every domain error raised at the repository reaches the
  boundary unchanged. Two errors do not. On the empty repository the lookup of
  \<open>a@b.com\<close> raises \<open>email_not_found\<close> inside the repository, which catches it and returns
  the dictionary with its message; the service raises a new \<open>UserNotFoundException\<close>
  whose message has the prefix four times, and that message is the \<open>detail\<close> of the 404
  response. And \<open>save\<close> of a user whose age is \<open>2^63\<close> raises \<open>UserNotFoundException\<close>,
  which the service's \<open>create_user\<close> wraps into an \<open>AppBaseException\<close>: the response is
  500, not 404.
\<close>

theorem repository_error_changed_on_the_way:
  "email_not_found ''a@b.com'' =
     \<lparr>cls = UserNotFound,
      message = ''Alphas Error: Alphas Error: Usuario con email '' @ [CHR 0x27] @ ''a@b.com''
                @ [CHR 0x27] @ '' no existe''\<rparr> \<and>
   SQLAlchemyUserRepository_get_user_by_email SQLAlchemyUserRepository_init ''a@b.com'' =
     [(''error'', PyStr (message (email_not_found ''a@b.com'')))] \<and>
   UserService_get_user_by_email SQLAlchemyUserRepository_init ''a@b.com'' =
     Inl \<lparr>cls = UserNotFound,
          message = ''Alphas Error: Alphas Error: Alphas Error: Alphas Error: Usuario con email ''
                    @ [CHR 0x27] @ ''a@b.com'' @ [CHR 0x27] @ '' no existe''\<rparr> \<and>
   exception_handler
     \<lparr>cls = UserNotFound,
      message = ''Alphas Error: Alphas Error: Alphas Error: Alphas Error: Usuario con email ''
                @ [CHR 0x27] @ ''a@b.com'' @ [CHR 0x27] @ '' no existe''\<rparr> =
     Some \<lparr>status_code = 404,
           content = [(''error'', ''Usuario no encontrado''),
                      (''detail'', ''Alphas Error: Alphas Error: Alphas Error: Alphas Error: Usuario con email ''
                                   @ [CHR 0x27] @ ''a@b.com'' @ [CHR 0x27] @ '' no existe'')]\<rparr> \<and>
   \<lparr>cls = UserNotFound,
    message = ''Alphas Error: Alphas Error: Alphas Error: Alphas Error: Usuario con email ''
              @ [CHR 0x27] @ ''a@b.com'' @ [CHR 0x27] @ '' no existe''\<rparr>
     \<noteq> email_not_found ''a@b.com'' \<and>
   SQLAlchemyUserRepository_save SQLAlchemyUserRepository_init
     \<lparr>user_id = None, user_email = ''a@b.com'', user_name = ''Ann'', user_status = ACTIVE,
      user_age = 9223372036854775808\<rparr> =
     (Inl \<lparr>cls = UserNotFound,
           message = ''Alphas Error: Alphas Error: Error al guardar usuario: Python int too large to convert to SQLite INTEGER''\<rparr>,
      SQLAlchemyUserRepository_init) \<and>
   create_user ascii_EmailStr SQLAlchemyUserRepository_init
     \<lparr>req_email = ''a@b.com'', req_name = ''Ann'', req_age = 9223372036854775808,
      req_status = ACTIVE\<rparr> =
     (Inl \<lparr>cls = AppBase,
           message = ''Alphas Error: Error al crear usuario: Alphas Error: Alphas Error: Error al guardar usuario: Python int too large to convert to SQLite INTEGER''\<rparr>,
      SQLAlchemyUserRepository_init) \<and>
   exception_handler
     \<lparr>cls = AppBase,
      message = ''Alphas Error: Error al crear usuario: Alphas Error: Alphas Error: Error al guardar usuario: Python int too large to convert to SQLite INTEGER''\<rparr> =
     Some \<lparr>status_code = 500,
           content = [(''error'', ''Error en la aplicaci'' @ [CHR 0xF3] @ ''n''),
                      (''detail'', ''Alphas Error: Error al crear usuario: Alphas Error: Alphas Error: Error al guardar usuario: Python int too large to convert to SQLite INTEGER'')]\<rparr>"
proof -
  have save: "SQLAlchemyUserRepository_save SQLAlchemyUserRepository_init
     \<lparr>user_id = None, user_email = ''a@b.com'', user_name = ''Ann'', user_status = ACTIVE,
      user_age = 9223372036854775808\<rparr> =
     (Inl \<lparr>cls = UserNotFound,
           message = ''Alphas Error: Alphas Error: Error al guardar usuario: Python int too large to convert to SQLite INTEGER''\<rparr>,
      SQLAlchemyUserRepository_init)"
    by (simp add: SQLAlchemyUserRepository_save_def SQLAlchemyUserRepository_init_def
        email_exists_eq strip_def py_isspace_def execute_insert_def sqlite_int_def
        OverflowError_def UserNotFoundException_eq)
  then have route: "create_user ascii_EmailStr SQLAlchemyUserRepository_init
     \<lparr>req_email = ''a@b.com'', req_name = ''Ann'', req_age = 9223372036854775808,
      req_status = ACTIVE\<rparr> =
     (Inl \<lparr>cls = AppBase,
           message = ''Alphas Error: Error al crear usuario: Alphas Error: Alphas Error: Error al guardar usuario: Python int too large to convert to SQLite INTEGER''\<rparr>,
      SQLAlchemyUserRepository_init)"
    by (simp add: create_user_def UserService_create_user_def ascii_EmailStr_examples
        AppBaseException_def
        AppBaseException_init_def base_message_def)
  have lookup: "SQLAlchemyUserRepository_get_user_by_email SQLAlchemyUserRepository_init ''a@b.com'' =
     [(''error'', PyStr (message (email_not_found ''a@b.com'')))]"
    by (simp add: SQLAlchemyUserRepository_get_user_by_email_def select_where_email_def
        SQLAlchemyUserRepository_init_def)
  then have service: "UserService_get_user_by_email SQLAlchemyUserRepository_init ''a@b.com'' =
     Inl \<lparr>cls = UserNotFound,
          message = ''Alphas Error: Alphas Error: Alphas Error: Alphas Error: Usuario con email ''
                    @ [CHR 0x27] @ ''a@b.com'' @ [CHR 0x27] @ '' no existe''\<rparr>"
    by (simp add: UserService_get_user_by_email_def email_not_found_def UserNotFoundException_eq)
  from save route lookup service show ?thesis
    by (simp add: email_not_found_def UserNotFoundException_eq exception_handler_def
        user_not_found_exception_handler_def app_base_exception_handler_def)
qed

text \<open>
  C7, as the code has it. An \<open>InvalidAgeException\<close>, \<open>InvalidUserNameException\<close> or
  \<open>DuplicateEmailException\<close> that \<open>save\<close> raises for the user of a request (the request's
  fields, with the email as the validation returns it, which for a request is the email
  of the request) comes out of the service's \<open>create_user\<close> and of the route as the same
  exception, and so does the \<open>UserNotFoundException\<close> of
  \<open>find_by_id\<close> out of \<open>get_user_by_id\<close> and its route (\<open>find_by_id\<close> raises no other
  class). At the boundary the handler is fixed by the class: 400 for \<open>InvalidAge\<close> and
  \<open>InvalidUserName\<close>, 409 for \<open>DuplicateEmail\<close>, 404 for \<open>UserNotFound\<close>, 500 for the base
  class, each with the category under \<open>error\<close> and the exception's message under
  \<open>detail\<close>.
\<close>

theorem validation_errors_reach_boundary:
  "(V (req_email d) = Inr em \<and>
    SQLAlchemyUserRepository_save repo
       \<lparr>user_id = None, user_email = em, user_name = req_name d,
        user_status = req_status d, user_age = req_age d\<rparr> = (Inl e, repo1) \<and>
    (cls e = InvalidAge \<or> cls e = InvalidUserName \<or> cls e = DuplicateEmail) \<longrightarrow>
      UserService_create_user V repo (req_email d) (req_name d) (req_age d) (req_status d) =
        (Inl e, repo1) \<and>
      create_user V repo d = (Inl e, repo1)) \<and>
   (SQLAlchemyUserRepository_find_by_id repo uid = Inl e2 \<longrightarrow>
      cls e2 = UserNotFound \<and> UserService_get_user_by_id repo uid = Inl e2 \<and>
      get_user repo uid = Inl e2) \<and>
   (cls x = InvalidAge \<longrightarrow>
      exception_handler x =
        Some \<lparr>status_code = 400,
              content = [(''error'', ''Edad inv'' @ [CHR 0xE1] @ ''lida''), (''detail'', message x)]\<rparr>) \<and>
   (cls x = InvalidUserName \<longrightarrow>
      exception_handler x =
        Some \<lparr>status_code = 400,
              content = [(''error'', ''Nombre de usuario inv'' @ [CHR 0xE1] @ ''lido''),
                         (''detail'', message x)]\<rparr>) \<and>
   (cls x = DuplicateEmail \<longrightarrow>
      exception_handler x =
        Some \<lparr>status_code = 409,
              content = [(''error'', ''Email duplicado''), (''detail'', message x)]\<rparr>) \<and>
   (cls x = UserNotFound \<longrightarrow>
      exception_handler x =
        Some \<lparr>status_code = 404,
              content = [(''error'', ''Usuario no encontrado''), (''detail'', message x)]\<rparr>) \<and>
   (cls x = AppBase \<longrightarrow>
      exception_handler x =
        Some \<lparr>status_code = 500,
              content = [(''error'', ''Error en la aplicaci'' @ [CHR 0xF3] @ ''n''),
                         (''detail'', message x)]\<rparr>)"
proof -
  have create: "V (req_email d) = Inr em \<and>
    SQLAlchemyUserRepository_save repo
       \<lparr>user_id = None, user_email = em, user_name = req_name d,
        user_status = req_status d, user_age = req_age d\<rparr> = (Inl e, repo1) \<and>
    (cls e = InvalidAge \<or> cls e = InvalidUserName \<or> cls e = DuplicateEmail) \<longrightarrow>
      UserService_create_user V repo (req_email d) (req_name d) (req_age d) (req_status d) =
        (Inl e, repo1) \<and>
      create_user V repo d = (Inl e, repo1)"
    by (simp add: create_user_def UserService_create_user_def)
  have find: "SQLAlchemyUserRepository_find_by_id repo uid = Inl e2 \<longrightarrow>
      cls e2 = UserNotFound \<and> UserService_get_user_by_id repo uid = Inl e2 \<and>
      get_user repo uid = Inl e2"
  proof
    assume raised: "SQLAlchemyUserRepository_find_by_id repo uid = Inl e2"
    then have "cls e2 = UserNotFound"
      by (auto simp add: SQLAlchemyUserRepository_find_by_id_def UserNotFoundException_eq
            split: sum.splits option.splits)
    with raised show "cls e2 = UserNotFound \<and> UserService_get_user_by_id repo uid = Inl e2 \<and>
      get_user repo uid = Inl e2"
      by (simp add: UserService_get_user_by_id_def get_user_def)
  qed
  have handlers:
    "cls x = InvalidAge \<longrightarrow> exception_handler x =
        Some \<lparr>status_code = 400,
              content = [(''error'', ''Edad inv'' @ [CHR 0xE1] @ ''lida''), (''detail'', message x)]\<rparr>"
    "cls x = InvalidUserName \<longrightarrow> exception_handler x =
        Some \<lparr>status_code = 400,
              content = [(''error'', ''Nombre de usuario inv'' @ [CHR 0xE1] @ ''lido''),
                         (''detail'', message x)]\<rparr>"
    "cls x = DuplicateEmail \<longrightarrow> exception_handler x =
        Some \<lparr>status_code = 409,
              content = [(''error'', ''Email duplicado''), (''detail'', message x)]\<rparr>"
    "cls x = UserNotFound \<longrightarrow> exception_handler x =
        Some \<lparr>status_code = 404,
              content = [(''error'', ''Usuario no encontrado''), (''detail'', message x)]\<rparr>"
    "cls x = AppBase \<longrightarrow> exception_handler x =
        Some \<lparr>status_code = 500,
              content = [(''error'', ''Error en la aplicaci'' @ [CHR 0xF3] @ ''n''),
                         (''detail'', message x)]\<rparr>"
    by (simp_all add: exception_handler_def invalid_age_exception_handler_def
        invalid_username_exception_handler_def duplicate_email_exception_handler_def
        user_not_found_exception_handler_def app_base_exception_handler_def)
  from create find handlers show ?thesis
    by blast
qed

theorem validation_errors_reach_boundary_witness:
  "SQLAlchemyUserRepository_save SQLAlchemyUserRepository_init
     \<lparr>user_id = None, user_email = ''a@b.com'', user_name = ''Ann'', user_status = ACTIVE,
      user_age = 10\<rparr> =
     (Inl (InvalidAgeException (''La edad debe ser mayor o igual a 18 a'' @ [CHR 0xF1] @ ''os'')),
      SQLAlchemyUserRepository_init) \<and>
   create_user ascii_EmailStr SQLAlchemyUserRepository_init
     \<lparr>req_email = ''a@b.com'', req_name = ''Ann'', req_age = 10, req_status = ACTIVE\<rparr> =
     (Inl (InvalidAgeException (''La edad debe ser mayor o igual a 18 a'' @ [CHR 0xF1] @ ''os'')),
      SQLAlchemyUserRepository_init) \<and>
   exception_handler
     (InvalidAgeException (''La edad debe ser mayor o igual a 18 a'' @ [CHR 0xF1] @ ''os'')) =
     Some \<lparr>status_code = 400,
           content = [(''error'', ''Edad inv'' @ [CHR 0xE1] @ ''lida''),
                      (''detail'', ''Alphas Error: Alphas Error: La edad debe ser mayor o igual a 18 a''
                                   @ [CHR 0xF1] @ ''os'')]\<rparr> \<and>
   SQLAlchemyUserRepository_find_by_id SQLAlchemyUserRepository_init 99999 =
     Inl (UserNotFoundException (''Usuario con ID '' @ [CHR 0x27] @ ''99999'' @ [CHR 0x27] @ '' no encontrado'')) \<and>
   get_user SQLAlchemyUserRepository_init 99999 =
     Inl (UserNotFoundException (''Usuario con ID '' @ [CHR 0x27] @ ''99999'' @ [CHR 0x27] @ '' no encontrado'')) \<and>
   exception_handler
     (UserNotFoundException (''Usuario con ID '' @ [CHR 0x27] @ ''99999'' @ [CHR 0x27] @ '' no encontrado'')) =
     Some \<lparr>status_code = 404,
           content = [(''error'', ''Usuario no encontrado''),
                      (''detail'', ''Alphas Error: Alphas Error: Usuario con ID '' @ [CHR 0x27]
                                   @ ''99999'' @ [CHR 0x27] @ '' no encontrado'')]\<rparr> \<and>
   exception_handler (InvalidUserNameException ''x'') =
     Some \<lparr>status_code = 400,
           content = [(''error'', ''Nombre de usuario inv'' @ [CHR 0xE1] @ ''lido''),
                      (''detail'', ''Alphas Error: Alphas Error: x'')]\<rparr> \<and>
   exception_handler (DuplicateEmailException ''x'') =
     Some \<lparr>status_code = 409,
           content = [(''error'', ''Email duplicado''), (''detail'', ''Alphas Error: Alphas Error: x'')]\<rparr> \<and>
   exception_handler (AppBaseException (Some ''x'')) =
     Some \<lparr>status_code = 500,
           content = [(''error'', ''Error en la aplicaci'' @ [CHR 0xF3] @ ''n''),
                      (''detail'', ''Alphas Error: x'')]\<rparr>"
proof -
  let ?d = "\<lparr>req_email = ''a@b.com'', req_name = ''Ann'', req_age = 10, req_status = ACTIVE\<rparr>"
  let ?e = "InvalidAgeException (''La edad debe ser mayor o igual a 18 a'' @ [CHR 0xF1] @ ''os'')"
  let ?e2 = "UserNotFoundException (''Usuario con ID '' @ [CHR 0x27] @ ''99999'' @ [CHR 0x27] @ '' no encontrado'')"
  let ?init = SQLAlchemyUserRepository_init
  have save: "ascii_EmailStr (req_email ?d) = Inr ''a@b.com'' \<and>
      SQLAlchemyUserRepository_save ?init
       \<lparr>user_id = None, user_email = ''a@b.com'', user_name = req_name ?d,
        user_status = req_status ?d, user_age = req_age ?d\<rparr> = (Inl ?e, ?init) \<and>
      (cls ?e = InvalidAge \<or> cls ?e = InvalidUserName \<or> cls ?e = DuplicateEmail)"
    by (simp add: SQLAlchemyUserRepository_save_def InvalidAgeException_eq
        ascii_EmailStr_examples)
  have digits: "str_int 99999 = ''99999''"
    by (simp add: str_int_def str_nat.simps [of 99999] str_nat.simps [of 9999]
        str_nat.simps [of 999] str_nat.simps [of 99] str_nat.simps [of 9])
  have find: "SQLAlchemyUserRepository_find_by_id ?init 99999 = Inl ?e2"
    by (simp add: SQLAlchemyUserRepository_find_by_id_def select_where_id_def sqlite_int_def
        SQLAlchemyUserRepository_init_def digits)
  have c1: "cls ?e = InvalidAge"
    and c2: "cls ?e2 = UserNotFound"
    and c3: "cls (InvalidUserNameException ''x'') = InvalidUserName"
    and c4: "cls (DuplicateEmailException ''x'') = DuplicateEmail"
    and c5: "cls (AppBaseException (Some ''x'')) = AppBase"
    by (simp_all add: exc_eqs AppBaseException_cls)
  from save validation_errors_reach_boundary
    [where V = ascii_EmailStr and d = ?d and em = "''a@b.com''" and repo = ?init and e = ?e
       and ?repo1.0 = ?init]
  have r1: "create_user ascii_EmailStr ?init ?d = (Inl ?e, ?init)"
    by blast
  from find validation_errors_reach_boundary [where repo = ?init and uid = 99999 and ?e2.0 = ?e2]
  have r2: "get_user ?init 99999 = Inl ?e2"
    by blast
  from c1 validation_errors_reach_boundary [where x = ?e]
  have h1: "exception_handler ?e =
      Some \<lparr>status_code = 400,
            content = [(''error'', ''Edad inv'' @ [CHR 0xE1] @ ''lida''), (''detail'', message ?e)]\<rparr>"
    by blast
  from c2 validation_errors_reach_boundary [where x = ?e2]
  have h2: "exception_handler ?e2 =
      Some \<lparr>status_code = 404,
            content = [(''error'', ''Usuario no encontrado''), (''detail'', message ?e2)]\<rparr>"
    by blast
  from c3 validation_errors_reach_boundary [where x = "InvalidUserNameException ''x''"]
  have h3: "exception_handler (InvalidUserNameException ''x'') =
      Some \<lparr>status_code = 400,
            content = [(''error'', ''Nombre de usuario inv'' @ [CHR 0xE1] @ ''lido''),
                       (''detail'', message (InvalidUserNameException ''x''))]\<rparr>"
    by blast
  from c4 validation_errors_reach_boundary [where x = "DuplicateEmailException ''x''"]
  have h4: "exception_handler (DuplicateEmailException ''x'') =
      Some \<lparr>status_code = 409,
            content = [(''error'', ''Email duplicado''),
                       (''detail'', message (DuplicateEmailException ''x''))]\<rparr>"
    by blast
  from c5 validation_errors_reach_boundary [where x = "AppBaseException (Some ''x'')"]
  have h5: "exception_handler (AppBaseException (Some ''x'')) =
      Some \<lparr>status_code = 500,
            content = [(''error'', ''Error en la aplicaci'' @ [CHR 0xF3] @ ''n''),
                       (''detail'', message (AppBaseException (Some ''x'')))]\<rparr>"
    by blast
  have m: "message ?e = ''Alphas Error: Alphas Error: La edad debe ser mayor o igual a 18 a''
        @ [CHR 0xF1] @ ''os''"
    "message ?e2 = ''Alphas Error: Alphas Error: Usuario con ID '' @ [CHR 0x27]
        @ ''99999'' @ [CHR 0x27] @ '' no encontrado''"
    "message (InvalidUserNameException ''x'') = ''Alphas Error: Alphas Error: x''"
    "message (DuplicateEmailException ''x'') = ''Alphas Error: Alphas Error: x''"
    "message (AppBaseException (Some ''x'')) = ''Alphas Error: x''"
    by (simp_all add: exc_eqs AppBaseException_def AppBaseException_init_def base_message_def)
  from save have s: "SQLAlchemyUserRepository_save ?init
     \<lparr>user_id = None, user_email = ''a@b.com'', user_name = ''Ann'', user_status = ACTIVE,
      user_age = 10\<rparr> = (Inl ?e, ?init)"
    by simp
  show ?thesis
    unfolding h1 h2 h3 h4 h5 m r1 r2 find s by simp
qed

text \<open>
  C10. Each of the four domain exceptions carries a message that begins with
  "Alphas Error: " twice: the subclass constructor prepends it and the base constructor
  prepends it again. The handler of each class puts that message in the \<open>detail\<close> of its
  400, 404 or 409 response. So every 400, 404 or 409 response to an exception that comes
  out of the route \<open>create_user\<close>, the route \<open>get_user\<close> or the service's lookup by email
  has a \<open>detail\<close> that begins with the doubled prefix.
\<close>

theorem doubled_prefix:
  "message (UserNotFoundException m) = base_message @ base_message @ m \<and>
   message (DuplicateEmailException m) = base_message @ base_message @ m \<and>
   message (InvalidAgeException m) = base_message @ base_message @ m \<and>
   message (InvalidUserNameException m) = base_message @ base_message @ m \<and>
   exception_handler (UserNotFoundException m) =
     Some \<lparr>status_code = 404,
           content = [(''error'', ''Usuario no encontrado''),
                      (''detail'', base_message @ base_message @ m)]\<rparr> \<and>
   exception_handler (DuplicateEmailException m) =
     Some \<lparr>status_code = 409,
           content = [(''error'', ''Email duplicado''),
                      (''detail'', base_message @ base_message @ m)]\<rparr> \<and>
   exception_handler (InvalidAgeException m) =
     Some \<lparr>status_code = 400,
           content = [(''error'', ''Edad inv'' @ [CHR 0xE1] @ ''lida''),
                      (''detail'', base_message @ base_message @ m)]\<rparr> \<and>
   exception_handler (InvalidUserNameException m) =
     Some \<lparr>status_code = 400,
           content = [(''error'', ''Nombre de usuario inv'' @ [CHR 0xE1] @ ''lido''),
                      (''detail'', base_message @ base_message @ m)]\<rparr> \<and>
   (create_user V repo d = (Inl e1, repo1) \<and> exception_handler e1 = Some r1 \<and>
    (status_code r1 = 400 \<or> status_code r1 = 404 \<or> status_code r1 = 409) \<longrightarrow>
      (\<exists>cat rest. content r1 = [(''error'', cat), (''detail'', base_message @ base_message @ rest)])) \<and>
   (get_user repo uid = Inl e2 \<and> exception_handler e2 = Some r2 \<and>
    (status_code r2 = 400 \<or> status_code r2 = 404 \<or> status_code r2 = 409) \<longrightarrow>
      (\<exists>cat rest. content r2 = [(''error'', cat), (''detail'', base_message @ base_message @ rest)])) \<and>
   (UserService_get_user_by_email repo email = Inl e3 \<and> exception_handler e3 = Some r3 \<longrightarrow>
      status_code r3 = 404 \<and>
      (\<exists>cat rest. content r3 = [(''error'', cat), (''detail'', base_message @ base_message @ rest)]))"
proof -
  have constructors:
    "message (UserNotFoundException m) = base_message @ base_message @ m"
    "message (DuplicateEmailException m) = base_message @ base_message @ m"
    "message (InvalidAgeException m) = base_message @ base_message @ m"
    "message (InvalidUserNameException m) = base_message @ base_message @ m"
    by (simp_all add: exc_eqs base_message_def)
  have handlers:
    "exception_handler (UserNotFoundException m) =
       Some \<lparr>status_code = 404,
             content = [(''error'', ''Usuario no encontrado''),
                        (''detail'', base_message @ base_message @ m)]\<rparr>"
    "exception_handler (DuplicateEmailException m) =
       Some \<lparr>status_code = 409,
             content = [(''error'', ''Email duplicado''),
                        (''detail'', base_message @ base_message @ m)]\<rparr>"
    "exception_handler (InvalidAgeException m) =
       Some \<lparr>status_code = 400,
             content = [(''error'', ''Edad inv'' @ [CHR 0xE1] @ ''lida''),
                        (''detail'', base_message @ base_message @ m)]\<rparr>"
    "exception_handler (InvalidUserNameException m) =
       Some \<lparr>status_code = 400,
             content = [(''error'', ''Nombre de usuario inv'' @ [CHR 0xE1] @ ''lido''),
                        (''detail'', base_message @ base_message @ m)]\<rparr>"
    by (simp_all add: exc_eqs base_message_def exception_handler_def
        user_not_found_exception_handler_def duplicate_email_exception_handler_def
        invalid_age_exception_handler_def invalid_username_exception_handler_def)
  have create: "create_user V repo d = (Inl e1, repo1) \<and> exception_handler e1 = Some r1 \<and>
    (status_code r1 = 400 \<or> status_code r1 = 404 \<or> status_code r1 = 409) \<longrightarrow>
      (\<exists>cat rest. content r1 = [(''error'', cat), (''detail'', base_message @ base_message @ rest)])"
    using create_user_route_error [of V repo d e1 repo1] doubled_detail [of e1 r1] by blast
  have get: "get_user repo uid = Inl e2 \<and> exception_handler e2 = Some r2 \<and>
    (status_code r2 = 400 \<or> status_code r2 = 404 \<or> status_code r2 = 409) \<longrightarrow>
      (\<exists>cat rest. content r2 = [(''error'', cat), (''detail'', base_message @ base_message @ rest)])"
    using get_user_route_error [of repo uid e2] doubled_detail [of e2 r2] by blast
  have lookup: "UserService_get_user_by_email repo email = Inl e3 \<and> exception_handler e3 = Some r3 \<longrightarrow>
      status_code r3 = 404 \<and>
      (\<exists>cat rest. content r3 = [(''error'', cat), (''detail'', base_message @ base_message @ rest)])"
  proof
    assume a: "UserService_get_user_by_email repo email = Inl e3 \<and> exception_handler e3 = Some r3"
    with service_get_user_by_email_error [of repo email e3]
    have c: "cls e3 = UserNotFound" and p: "prefix ''Alphas Error: Alphas Error: '' (message e3)"
      by simp_all
    from a c have st: "status_code r3 = 404"
      by (auto simp add: exception_handler_def user_not_found_exception_handler_def)
    with a p doubled_detail [of e3 r3]
    show "status_code r3 = 404 \<and>
      (\<exists>cat rest. content r3 = [(''error'', cat), (''detail'', base_message @ base_message @ rest)])"
      by simp
  qed
  from constructors handlers create get lookup show ?thesis
    by blast
qed

theorem doubled_prefix_witness:
  "create_user ascii_EmailStr SQLAlchemyUserRepository_init
     \<lparr>req_email = ''a@b.com'', req_name = ''Ann'', req_age = 10, req_status = ACTIVE\<rparr> =
     (Inl (InvalidAgeException (''La edad debe ser mayor o igual a 18 a'' @ [CHR 0xF1] @ ''os'')),
      SQLAlchemyUserRepository_init) \<and>
   exception_handler
     (InvalidAgeException (''La edad debe ser mayor o igual a 18 a'' @ [CHR 0xF1] @ ''os'')) =
     Some \<lparr>status_code = 400,
           content = [(''error'', ''Edad inv'' @ [CHR 0xE1] @ ''lida''),
                      (''detail'', ''Alphas Error: Alphas Error: La edad debe ser mayor o igual a 18 a''
                                   @ [CHR 0xF1] @ ''os'')]\<rparr> \<and>
   (\<exists>cat rest.
      [(''error'', ''Edad inv'' @ [CHR 0xE1] @ ''lida''),
       (''detail'', ''Alphas Error: Alphas Error: La edad debe ser mayor o igual a 18 a''
                    @ [CHR 0xF1] @ ''os'')] =
      [(''error'', cat), (''detail'', base_message @ base_message @ rest)]) \<and>
   get_user SQLAlchemyUserRepository_init 7 =
     Inl (UserNotFoundException (''Usuario con ID '' @ [CHR 0x27] @ ''7'' @ [CHR 0x27] @ '' no encontrado'')) \<and>
   (\<exists>cat rest.
      [(''error'', ''Usuario no encontrado''),
       (''detail'', ''Alphas Error: Alphas Error: Usuario con ID '' @ [CHR 0x27] @ ''7''
                    @ [CHR 0x27] @ '' no encontrado'')] =
      [(''error'', cat), (''detail'', base_message @ base_message @ rest)]) \<and>
   UserService_get_user_by_email SQLAlchemyUserRepository_init ''a@b.com'' =
     Inl (UserNotFoundException (message (email_not_found ''a@b.com''))) \<and>
   (\<exists>cat rest.
      [(''error'', ''Usuario no encontrado''),
       (''detail'', message (UserNotFoundException (message (email_not_found ''a@b.com''))))] =
      [(''error'', cat), (''detail'', base_message @ base_message @ rest)])"
proof -
  let ?init = SQLAlchemyUserRepository_init
  let ?d = "\<lparr>req_email = ''a@b.com'', req_name = ''Ann'', req_age = 10, req_status = ACTIVE\<rparr>"
  let ?e1 = "InvalidAgeException (''La edad debe ser mayor o igual a 18 a'' @ [CHR 0xF1] @ ''os'')"
  let ?r1 = "\<lparr>status_code = 400,
           content = [(''error'', ''Edad inv'' @ [CHR 0xE1] @ ''lida''),
                      (''detail'', ''Alphas Error: Alphas Error: La edad debe ser mayor o igual a 18 a''
                                   @ [CHR 0xF1] @ ''os'')]\<rparr>"
  let ?e2 = "UserNotFoundException (''Usuario con ID '' @ [CHR 0x27] @ ''7'' @ [CHR 0x27] @ '' no encontrado'')"
  let ?r2 = "\<lparr>status_code = 404,
           content = [(''error'', ''Usuario no encontrado''),
                      (''detail'', ''Alphas Error: Alphas Error: Usuario con ID '' @ [CHR 0x27] @ ''7''
                                   @ [CHR 0x27] @ '' no encontrado'')]\<rparr>"
  let ?e3 = "UserNotFoundException (message (email_not_found ''a@b.com''))"
  let ?r3 = "\<lparr>status_code = 404,
           content = [(''error'', ''Usuario no encontrado''), (''detail'', message ?e3)]\<rparr>"
  have route1: "create_user ascii_EmailStr ?init ?d = (Inl ?e1, ?init)"
    by (simp add: create_user_def UserService_create_user_def ascii_EmailStr_examples
        SQLAlchemyUserRepository_save_def
        InvalidAgeException_eq)
  have h1: "exception_handler ?e1 = Some ?r1"
    by (simp add: InvalidAgeException_eq exception_handler_def invalid_age_exception_handler_def)
  have s1: "status_code ?r1 = 400 \<or> status_code ?r1 = 404 \<or> status_code ?r1 = 409"
    by simp
  have digit: "str_int 7 = ''7''"
    by (simp add: str_int_def str_nat.simps [of 7])
  have route2: "get_user ?init 7 = Inl ?e2"
    by (simp add: get_user_def UserService_get_user_by_id_def
        SQLAlchemyUserRepository_find_by_id_def select_where_id_def sqlite_int_def
        SQLAlchemyUserRepository_init_def digit UserNotFoundException_eq)
  have h2: "exception_handler ?e2 = Some ?r2"
    by (simp add: UserNotFoundException_eq exception_handler_def
        user_not_found_exception_handler_def)
  have s2: "status_code ?r2 = 400 \<or> status_code ?r2 = 404 \<or> status_code ?r2 = 409"
    by simp
  have lookup: "UserService_get_user_by_email ?init ''a@b.com'' = Inl ?e3"
    by (simp add: UserService_get_user_by_email_def
        SQLAlchemyUserRepository_get_user_by_email_def select_where_email_def
        SQLAlchemyUserRepository_init_def)
  have h3: "exception_handler ?e3 = Some ?r3"
    by (simp add: UserNotFoundException_eq exception_handler_def
        user_not_found_exception_handler_def)
  note inst = doubled_prefix
    [where V = ascii_EmailStr and repo = ?init and d = ?d and ?e1.0 = ?e1 and ?repo1.0 = ?init
       and ?r1.0 = ?r1 and uid = 7 and ?e2.0 = ?e2 and ?r2.0 = ?r2 and email = "''a@b.com''"
       and ?e3.0 = ?e3 and ?r3.0 = ?r3]
  from route1 h1 s1 inst
  have c1: "\<exists>cat rest. content ?r1 = [(''error'', cat), (''detail'', base_message @ base_message @ rest)]"
    by blast
  from route2 h2 s2 inst
  have c2: "\<exists>cat rest. content ?r2 = [(''error'', cat), (''detail'', base_message @ base_message @ rest)]"
    by blast
  from lookup h3 inst
  have c3: "\<exists>cat rest. content ?r3 = [(''error'', cat), (''detail'', base_message @ base_message @ rest)]"
    by blast
  from c1 have c1': "\<exists>cat rest.
      [(''error'', ''Edad inv'' @ [CHR 0xE1] @ ''lida''),
       (''detail'', ''Alphas Error: Alphas Error: La edad debe ser mayor o igual a 18 a''
                    @ [CHR 0xF1] @ ''os'')] =
      [(''error'', cat), (''detail'', base_message @ base_message @ rest)]"
    by simp
  from c2 have c2': "\<exists>cat rest.
      [(''error'', ''Usuario no encontrado''),
       (''detail'', ''Alphas Error: Alphas Error: Usuario con ID '' @ [CHR 0x27] @ ''7''
                    @ [CHR 0x27] @ '' no encontrado'')] =
      [(''error'', cat), (''detail'', base_message @ base_message @ rest)]"
    by simp
  from c3 have c3': "\<exists>cat rest.
      [(''error'', ''Usuario no encontrado''), (''detail'', message ?e3)] =
      [(''error'', cat), (''detail'', base_message @ base_message @ rest)]"
    by simp
  from route1 h1 c1' route2 c2' lookup c3' show ?thesis
    by blast
qed

end
